theory Spec2Isabelle
  imports Complex_Main "HOL-Library.Sublist"
begin

section \<open>The sliding-window rate limiter (package bot)\<close>

text \<open>
  Instants of the clock are integers counting nanoseconds, and \<open>time_Add\<close>, \<open>time_Sub\<close>
  and \<open>time_After\<close> stand for the methods \<open>Add\<close>, \<open>Sub\<close> and \<open>After\<close> of \<open>time.Time\<close>.
  A \<open>time.Duration\<close> is a 64-bit integer of nanoseconds, from \<open>minDuration\<close> to
  \<open>maxDuration\<close>. Negating the least duration gives the least duration again, every other
  negation is exact; \<open>Sub\<close> returns the least or the greatest duration when the difference
  of the instants does not fit. An instant moved by a duration stays within the range of
  \<open>time.Time\<close>, so \<open>Add\<close> is exact.
\<close>

definition minDuration :: int where
  "minDuration = - 9223372036854775808"

definition maxDuration :: int where
  "maxDuration = 9223372036854775807"

definition Duration_neg :: "int \<Rightarrow> int" where
  "Duration_neg d = (if d = minDuration then minDuration else - d)"

definition time_Add :: "int \<Rightarrow> int \<Rightarrow> int" where
  "time_Add t d = t + d"

definition time_Sub :: "int \<Rightarrow> int \<Rightarrow> int" where
  "time_Sub t u =
     (if t - u < minDuration then minDuration
      else if maxDuration < t - u then maxDuration
      else t - u)"

definition time_After :: "int \<Rightarrow> int \<Rightarrow> bool" where
  "time_After t u \<longleftrightarrow> u < t"

text \<open>
  The struct \<open>RateLimiter\<close>. The mutex is held from the first statement of \<open>Allow\<close> to
  its return, so a call is one atomic step on the fields below and the mutex itself is
  not a field of the model.
\<close>

record RateLimiter =
  limit :: int
  window :: int
  requests :: "string \<rightharpoonup> int list"

definition NewRateLimiter :: "int \<Rightarrow> int \<Rightarrow> RateLimiter" where
  "NewRateLimiter l w = \<lparr>limit = l, window = w, requests = Map.empty\<rparr>"

text \<open>
  The loop \<open>for _, ts := range timestamps\<close> of \<open>Allow\<close>: the third argument is the slice
  \<open>valid\<close> built so far. \<open>valid\<close> shares the array of \<open>timestamps\<close>, and the loop writes
  only positions it has already read, so the sharing is not observable.
\<close>

fun prune :: "int \<Rightarrow> int list \<Rightarrow> int list \<Rightarrow> int list" where
  "prune cutoff [] valid = valid"
| "prune cutoff (ts # rest) valid =
     (if time_After ts cutoff then prune cutoff rest (valid @ [ts])
      else prune cutoff rest valid)"

text \<open>
  Reading \<open>valid[0]\<close> of an empty slice panics; the deferred \<open>Unlock\<close> runs and the map
  is as it was before the call.
\<close>

datatype panic = IndexOutOfRange

text \<open>
  \<open>Allow rl now userID\<close>: \<open>now\<close> is the value \<open>time.Now()\<close> returns inside the call.
  A key absent from the map reads as the nil slice. The result is the returned pair
  and the limiter after the call.
\<close>

definition Allow :: "RateLimiter \<Rightarrow> int \<Rightarrow> string \<Rightarrow> panic + ((bool \<times> int) \<times> RateLimiter)" where
  "Allow rl now userID =
     (let cutoff = time_Add now (Duration_neg (window rl));
          timestamps = (case requests rl userID of None \<Rightarrow> [] | Some tss \<Rightarrow> tss);
          valid = prune cutoff timestamps []
      in if limit rl \<le> int (length valid) then
           (case valid of
              [] \<Rightarrow> Inl IndexOutOfRange
            | oldest # _ \<Rightarrow>
                Inr ((False, time_Sub (time_Add oldest (window rl)) now),
                     rl\<lparr>requests := (requests rl)(userID \<mapsto> valid)\<rparr>))
         else Inr ((True, 0), rl\<lparr>requests := (requests rl)(userID \<mapsto> valid @ [now])\<rparr>))"

text \<open>
  Calls that several goroutines make at once run one after the other, in the order in
  which they take the mutex; each reads the clock while it holds the mutex. \<open>Allow_seq\<close>
  runs such a sequence of calls, given as pairs of clock reading and key, and collects
  the returned pairs. A panic ends the run.
\<close>

fun Allow_seq :: "RateLimiter \<Rightarrow> (int \<times> string) list \<Rightarrow> panic + ((bool \<times> int) list \<times> RateLimiter)" where
  "Allow_seq rl [] = Inr ([], rl)"
| "Allow_seq rl ((now, userID) # calls) =
     (case Allow rl now userID of
        Inl p \<Rightarrow> Inl p
      | Inr (r, rl') \<Rightarrow>
          (case Allow_seq rl' calls of
             Inl p \<Rightarrow> Inl p
           | Inr (rs, rl'') \<Rightarrow> Inr (r # rs, rl'')))"

text \<open>The invariant of the map: every recorded sequence is ascending and holds no instant after \<open>t\<close>.\<close>

definition ascending_upto :: "RateLimiter \<Rightarrow> int \<Rightarrow> bool" where
  "ascending_upto rl t \<longleftrightarrow>
     (\<forall>k tss. requests rl k = Some tss \<longrightarrow> sorted tss \<and> (\<forall>x \<in> set tss. x \<le> t))"

text \<open>
  Two readings used in the statements. \<open>stored\<close> is \<open>rl.requests[userID]\<close>, the nil slice
  for an absent key. \<open>remaining\<close> is what pruning leaves: the recorded instants after the
  cutoff that \<open>Allow\<close> computes, in their order.
\<close>

definition stored :: "RateLimiter \<Rightarrow> string \<Rightarrow> int list" where
  "stored rl userID = (case requests rl userID of None \<Rightarrow> [] | Some tss \<Rightarrow> tss)"

definition remaining :: "RateLimiter \<Rightarrow> int \<Rightarrow> string \<Rightarrow> int list" where
  "remaining rl now userID =
     filter (\<lambda>ts. time_After ts (time_Add now (Duration_neg (window rl)))) (stored rl userID)"

section \<open>The completion client (package ai)\<close>

subsection \<open>Request and response types\<close>

record FunctionSchema =
  Name :: string
  Description :: string
  Strict :: bool
  Parameters :: string

record ToolDef =
  Type :: string
  Function :: FunctionSchema

record FunctionCall =
  Name :: string
  Arguments :: string

record ToolCall =
  ID :: string
  Type :: string
  Function :: FunctionCall

record Message =
  Role :: string
  Content :: string
  ToolCalls :: "ToolCall list"
  ToolCallID :: string

text \<open>\<open>Temperature\<close> is the constant the source writes as \<open>0.2\<close>.\<close>

record chatRequest =
  Model :: string
  Messages :: "Message list"
  Tools :: "ToolDef list"
  Temperature :: real

text \<open>
  A choice of \<open>chatResponse\<close> is a struct with the one field \<open>Message\<close>, so \<open>Choices\<close>
  is the list of these messages. \<open>Error\<close> holds the fields \<open>Message\<close> and \<open>Code\<close> when
  the pointer is not nil.
\<close>

record chatResponse =
  Choices :: "Message list"
  Error :: "(string \<times> string) option"

record SearchArgs =
  Query :: string

text \<open>The client without its \<open>httpClient\<close>, which belongs to what lies outside the program.\<close>

record Client =
  apiKey :: string
  baseURL :: string
  model :: string

record APIError =
  StatusCode :: int
  Body :: string

text \<open>
  The values of type \<open>error\<close> that \<open>call\<close> and \<open>Complete\<close> return, one constructor for
  each place that builds one. An error that a library call returned and the source wraps
  with \<open>%w\<close> is not kept.
\<close>

datatype error =
    SerializationError
  | RequestCreationError
  | NetworkError
  | ReadError
  | ApiError APIError
  | DecodeError
  | EmptyResponse
  | InvalidToolArguments
  | EmptyResponseSecondCall

text \<open>The error a search function returns is known by its text.\<close>

type_synonym go_error = string

record CompletionResult =
  Reply :: string
  WebSearchUsed :: bool
  WebSearchError :: "go_error option"
  WebSearchQuery :: string

subsection \<open>What lies outside the program\<close>

text \<open>
  A run of \<open>Complete\<close> leaves a trace: one \<open>CallEvent\<close> for each invocation of \<open>call\<close>,
  with the messages and the tools it was given, and one \<open>SearchEvent\<close> for each invocation
  of the search function, with its query.
\<close>

datatype event =
    CallEvent "Message list" "ToolDef list"
  | SearchEvent string

record http_request =
  url :: string
  content_type :: string
  authorization :: string
  payload :: string

text \<open>
  What sending a request comes to: the request could not be built, the round trip failed
  (the network, or the context was cancelled or ran out of time), the body could not be
  read, or a status code and a body arrived.
\<close>

datatype http_outcome =
    RequestCreationFailure
  | NetworkFailure
  | ReadFailure
  | Response int string

text \<open>
  The library calls and the remote service are parameters of the model. The outcome of
  a request may depend on the trace so far, so the service may answer the same request
  differently the second time.
\<close>

record env =
  json_Marshal :: "chatRequest \<Rightarrow> string option"
  http_Do :: "event list \<Rightarrow> http_request \<Rightarrow> http_outcome"
  json_Unmarshal_chatResponse :: "string \<Rightarrow> chatResponse option"
  json_Unmarshal_SearchArgs :: "string \<Rightarrow> SearchArgs option"

subsection \<open>The operations\<close>

text \<open>\<open>call\<close> takes the trace so far and returns its result with the extended trace.\<close>

definition call :: "env \<Rightarrow> Client \<Rightarrow> event list \<Rightarrow> Message list \<Rightarrow> ToolDef list
    \<Rightarrow> (error + chatResponse) \<times> event list" where
  "call E c trace messages tools =
     (let trace' = trace @ [CallEvent messages tools];
          reqBody = \<lparr>Model = model c, Messages = messages, Tools = tools, Temperature = 0.2\<rparr>
      in case json_Marshal E reqBody of
           None \<Rightarrow> (Inl SerializationError, trace')
         | Some body \<Rightarrow>
             (case http_Do E trace
                     \<lparr>url = baseURL c, content_type = ''application/json'',
                      authorization = ''Bearer '' @ apiKey c, payload = body\<rparr> of
                RequestCreationFailure \<Rightarrow> (Inl RequestCreationError, trace')
              | NetworkFailure \<Rightarrow> (Inl NetworkError, trace')
              | ReadFailure \<Rightarrow> (Inl ReadError, trace')
              | Response status respBody \<Rightarrow>
                  if status \<noteq> 200 then
                    (Inl (ApiError \<lparr>StatusCode = status, Body = respBody\<rparr>), trace')
                  else
                    (case json_Unmarshal_chatResponse E respBody of
                       None \<Rightarrow> (Inl DecodeError, trace')
                     | Some chatResp \<Rightarrow> (Inr chatResp, trace'))))"

text \<open>
  The body of \<open>if tc.Function.Name == "search_internet"\<close> in \<open>Complete\<close>: it returns an
  error, or the result so far and the message of the second response.
\<close>

definition tool_round :: "env \<Rightarrow> Client \<Rightarrow> event list \<Rightarrow> Message list \<Rightarrow> Message \<Rightarrow> ToolCall
    \<Rightarrow> (string \<Rightarrow> string \<times> go_error option) \<Rightarrow> CompletionResult
    \<Rightarrow> (error + (CompletionResult \<times> Message)) \<times> event list" where
  "tool_round E c trace messages msg tc searchFn result0 =
     (let result1 = result0\<lparr>WebSearchUsed := True\<rparr>
      in case json_Unmarshal_SearchArgs E (Arguments (Function tc)) of
           None \<Rightarrow> (Inl InvalidToolArguments, trace)
         | Some args \<Rightarrow>
             (let result2 = result1\<lparr>WebSearchQuery := Query args\<rparr>;
                  (searchResult, searchErr) = searchFn (Query args);
                  trace2 = trace @ [SearchEvent (Query args)];
                  result3 = result2\<lparr>WebSearchError := searchErr\<rparr>;
                  messages2 = messages @
                    [\<lparr>Role = ''assistant'', Content = '''', ToolCalls = ToolCalls msg, ToolCallID = ''''\<rparr>,
                     \<lparr>Role = ''tool'', Content = searchResult, ToolCalls = [], ToolCallID = ID tc\<rparr>]
              in case call E c trace2 messages2 [] of
                   (Inl err, trace3) \<Rightarrow> (Inl err, trace3)
                 | (Inr resp, trace3) \<Rightarrow>
                     (case Choices resp of
                        [] \<Rightarrow> (Inl EmptyResponseSecondCall, trace3)
                      | msg2 # _ \<Rightarrow> (Inr (result3, msg2), trace3))))"

text \<open>
  \<open>Complete\<close>: \<open>searchFn\<close> is \<open>None\<close> for the nil function. The context is not a
  parameter: its cancellation shows as a \<open>NetworkFailure\<close> of the request under way.
  The second component of the result is the trace of the run.
\<close>

definition Complete :: "env \<Rightarrow> Client \<Rightarrow> Message list \<Rightarrow> ToolDef list
    \<Rightarrow> (string \<Rightarrow> string \<times> go_error option) option
    \<Rightarrow> (error + CompletionResult) \<times> event list" where
  "Complete E c messages tools searchFn =
     (let result = \<lparr>Reply = '''', WebSearchUsed = False, WebSearchError = None, WebSearchQuery = ''''\<rparr>
      in case call E c [] messages tools of
           (Inl err, trace) \<Rightarrow> (Inl err, trace)
         | (Inr resp, trace) \<Rightarrow>
             (case Choices resp of
                [] \<Rightarrow> (Inl EmptyResponse, trace)
              | msg # _ \<Rightarrow>
                  (case (ToolCalls msg, searchFn) of
                     (tc # _, Some f) \<Rightarrow>
                       if Name (Function tc) = ''search_internet'' then
                         (case tool_round E c trace messages msg tc f result of
                            (Inl err, trace') \<Rightarrow> (Inl err, trace')
                          | (Inr (result', msg'), trace') \<Rightarrow>
                              (Inr (result'\<lparr>Reply := Content msg'\<rparr>), trace'))
                       else (Inr (result\<lparr>Reply := Content msg\<rparr>), trace)
                   | _ \<Rightarrow> (Inr (result\<lparr>Reply := Content msg\<rparr>), trace))))"


text \<open>The observations of a trace: the queries the search function was invoked with, and
  the arguments of the invocations of \<open>call\<close>, each in order.\<close>

fun searches :: "event list \<Rightarrow> string list" where
  "searches [] = []"
| "searches (SearchEvent q # es) = q # searches es"
| "searches (CallEvent ms ts # es) = searches es"

fun transport_calls :: "event list \<Rightarrow> (Message list \<times> ToolDef list) list" where
  "transport_calls [] = []"
| "transport_calls (SearchEvent q # es) = transport_calls es"
| "transport_calls (CallEvent ms ts # es) = (ms, ts) # transport_calls es"

text \<open>The two messages \<open>Complete\<close> appends for a first message, its first call and a search result.\<close>

definition appended :: "Message \<Rightarrow> ToolCall \<Rightarrow> string \<Rightarrow> Message list" where
  "appended msg tc searchResult =
     [\<lparr>Role = ''assistant'', Content = '''', ToolCalls = ToolCalls msg, ToolCallID = ''''\<rparr>,
      \<lparr>Role = ''tool'', Content = searchResult, ToolCalls = [], ToolCallID = ID tc\<rparr>]"

subsection \<open>The messages of \<open>UserMessage\<close>\<close>

text \<open>
  A string is the list of its bytes in UTF-8. Each constant below is the string literal
  of one case of the switch in \<open>UserMessage\<close>, named after the case.
\<close>

definition message_400 :: string where
  "message_400 =
     [CHR 0xF0, CHR 0x9F, CHR 0x92, CHR 0xA8] @
     '' Un simple courant d'' @
     [CHR 0x27] @
     ''air ? Le grand silence de la Shukrute ?'' @
     [CHR 0x0A] @
     ''Ton message est compl'' @
     [CHR 0xC3, CHR 0xA8] @
     ''tement vide ! Envoie-moi quelques mots, je ne ma'' @
     [CHR 0xC3, CHR 0xAE] @
     ''trise pas encore la t'' @
     [CHR 0xC3, CHR 0xA9] @
     ''l'' @
     [CHR 0xC3, CHR 0xA9] @
     ''pathie. (Erreur 400)''"

definition message_401 :: string where
  "message_401 =
     [CHR 0xE2, CHR 0x9D, CHR 0x8C, CHR 0xF0, CHR 0x9F, CHR 0x9B, CHR 0xA1, CHR 0xEF, CHR 0xB8, CHR 0x8F, CHR 0xE2, CHR 0x9D, CHR 0x8C] @
     '' Oulah '' @
     [CHR 0xC3, CHR 0xA7] @
     ''a sent le porkass grill'' @
     [CHR 0xC3, CHR 0xA9] @
     '', la milice m'' @
     [CHR 0x27] @
     ''a refoul'' @
     [CHR 0xC3, CHR 0xA9] @
     '' l'' @
     [CHR 0x27] @
     ''acc'' @
     [CHR 0xC3, CHR 0xA8] @
     ''s !'' @
     [CHR 0x0A] @
     '' Mon cr'' @
     [CHR 0xC3, CHR 0xA9] @
     ''ateur doit corriger mes acc'' @
     [CHR 0xC3, CHR 0xA8] @
     ''s pour que je puisse te r'' @
     [CHR 0xC3, CHR 0xA9] @
     ''pondre. (Erreur 401)''"

definition message_402 :: string where
  "message_402 =
     [CHR 0xE2, CHR 0x9D, CHR 0x8C, CHR 0xF0, CHR 0x9F, CHR 0xAA, CHR 0x99, CHR 0xE2, CHR 0x9D, CHR 0x8C] @
     '' Par la sainte barbe du Dieu Enutrof, on dirait bien que ma '' @
     ''bourse sonne creux !'' @
     [CHR 0x0A] @
     '' Mon cr'' @
     [CHR 0xC3, CHR 0xA9] @
     ''ateur doit r'' @
     [CHR 0xC3, CHR 0xA9] @
     ''-injecter des Kamas pour que je puisse continuer '' @
     [CHR 0xC3, CHR 0xA0] @
     '' t'' @
     [CHR 0x27] @
     ''aider. (Erreur 402)''"

definition message_422 :: string where
  "message_422 =
     [CHR 0xE2, CHR 0x9D, CHR 0x8C, CHR 0xE2, CHR 0x9A, CHR 0x99, CHR 0xEF, CHR 0xB8, CHR 0x8F, CHR 0xE2, CHR 0x9D, CHR 0x8C] @
     '' Oups... Le cadran de mon X'' @
     [CHR 0xC3, CHR 0xA9] @
     ''lor interne s'' @
     [CHR 0x27] @
     ''est emm'' @
     [CHR 0xC3, CHR 0xAA] @
     ''l'' @
     [CHR 0xC3, CHR 0xA9] @
     '' les aiguilles, ou alors l'' @
     [CHR 0x27] @
     ''alchimie est mauvaise. Ma configuration actuelle m'' @
     [CHR 0x27] @
     ''emp'' @
     [CHR 0xC3, CHR 0xAA] @
     ''che de te r'' @
     [CHR 0xC3, CHR 0xA9] @
     ''pondre correctement.'' @
     [CHR 0x0A] @
     '' Mon cr'' @
     [CHR 0xC3, CHR 0xA9] @
     ''ateur doit revoir la configuration de mon mod'' @
     [CHR 0xC3, CHR 0xA8] @
     ''le ou de mes outils. (Erreur 422)''"

definition message_429 :: string where
  "message_429 =
     [CHR 0xE2, CHR 0x9D, CHR 0x8C, CHR 0xE2, CHR 0x9A, CHR 0xA1, CHR 0xE2, CHR 0x9D, CHR 0x8C] @
     '' Oula, tes Tofus messagers sont sur les rotules ! Tu spam co'' @
     ''mme un fou. Laisse-leur le temps de picorer quelques graines'' @
     '' et r'' @
     [CHR 0xC3, CHR 0xA9] @
     ''-essaye dans un instant. (Erreur 429)''"

definition message_500 :: string where
  "message_500 =
     [CHR 0xE2, CHR 0x9D, CHR 0x8C, CHR 0xF0, CHR 0x9F, CHR 0x92, CHR 0xA5, CHR 0xE2, CHR 0x9D, CHR 0x8C] @
     '' A'' @
     [CHR 0xC3, CHR 0xAF] @
     ''e... Une de mes tourelles Steamer vient de surchauffer en co'' @
     ''ulisses. C'' @
     [CHR 0x27] @
     ''est de ma faute ! Mes technomages sont sur le coup pour r'' @
     [CHR 0xC3, CHR 0xA9] @
     ''parer les rouages, reviens me voir dans un petit instant. (E'' @
     ''rreur 500)''"

definition message_503 :: string where
  "message_503 =
     [CHR 0xE2, CHR 0x9D, CHR 0x8C, CHR 0xE2, CHR 0x8F, CHR 0xB3, CHR 0xE2, CHR 0x9D, CHR 0x8C] @
     '' Embouteillage monstre au Zaap d'' @
     [CHR 0x27] @
     ''Astrub ! Il y a beaucoup trop de monde qui me parle en m'' @
     [CHR 0xC3, CHR 0xAA] @
     ''me temps et mes circuits d'' @
     [CHR 0xC3, CHR 0xA9] @
     ''bordent. Prends une petite limonade et r'' @
     [CHR 0xC3, CHR 0xA9] @
     ''-essaye dans quelques minutes. (Erreur 503)''"

definition message_unknown :: string where
  "message_unknown =
     [CHR 0xE2, CHR 0x9D, CHR 0x8C] @
     '' Oups, on dirait que Dieu X'' @
     [CHR 0xC3, CHR 0xA9] @
     ''lor fait encore des siennes, mes signaux sont perturb'' @
     [CHR 0xC3, CHR 0xA9] @
     ''s ! R'' @
     [CHR 0xC3, CHR 0xA9] @
     ''-essaye dans quelques instants. (Erreur inconnue)''"


definition UserMessage :: "APIError \<Rightarrow> string" where
  "UserMessage e =
     (if StatusCode e = 400 then message_400
      else if StatusCode e = 401 then message_401
      else if StatusCode e = 402 then message_402
      else if StatusCode e = 422 then message_422
      else if StatusCode e = 429 then message_429
      else if StatusCode e = 500 then message_500
      else if StatusCode e = 503 then message_503
      else message_unknown)"

subsection \<open>A scripted service\<close>

text \<open>
  An environment for concrete runs: every request can be serialized, the service gives
  the outcome \<open>first\<close> to the first request of a run and \<open>second\<close> to every later one, and
  the two decoders are finite tables from texts to decoded values.
\<close>

definition scripted :: "http_outcome \<Rightarrow> http_outcome \<Rightarrow> (string \<times> chatResponse) list
    \<Rightarrow> (string \<times> SearchArgs) list \<Rightarrow> env" where
  "scripted first second responses arguments =
     \<lparr>json_Marshal = (\<lambda>r. Some (Model r)),
      http_Do = (\<lambda>trace req. if trace = [] then first else second),
      json_Unmarshal_chatResponse = map_of responses,
      json_Unmarshal_SearchArgs = map_of arguments\<rparr>"

subsection \<open>Values for concrete runs\<close>

definition example_client :: Client where
  "example_client =
     \<lparr>apiKey = ''sk-test'', baseURL = ''https://api.deepseek.com/chat/completions'',
      model = ''deepseek-chat''\<rparr>"

definition example_history :: "Message list" where
  "example_history =
     [\<lparr>Role = ''system'', Content = ''Tu es un bot Discord'', ToolCalls = [], ToolCallID = ''''\<rparr>,
      \<lparr>Role = ''user'', Content = ''[bob] salut'', ToolCalls = [], ToolCallID = ''''\<rparr>]"

text \<open>A tool call as the model proposes one, and a response whose one choice proposes the given calls.\<close>

definition proposed_call :: "string \<Rightarrow> string \<Rightarrow> string \<Rightarrow> ToolCall" where
  "proposed_call i n a = \<lparr>ID = i, Type = ''function'', Function = \<lparr>Name = n, Arguments = a\<rparr>\<rparr>"

definition proposal :: "ToolCall list \<Rightarrow> chatResponse" where
  "proposal tcs =
     \<lparr>Choices = [\<lparr>Role = ''assistant'', Content = ''je cherche'', ToolCalls = tcs, ToolCallID = ''''\<rparr>],
      Error = None\<rparr>"

definition answer :: "string \<Rightarrow> chatResponse" where
  "answer reply =
     \<lparr>Choices = [\<lparr>Role = ''assistant'', Content = reply, ToolCalls = [], ToolCallID = ''''\<rparr>],
      Error = None\<rparr>"

definition query_x :: string where
  \<open>query_x = ''{"query":"x"}''\<close>

definition query_number :: string where
  \<open>query_number = ''{"query":1}''\<close>

definition example_tools :: "ToolDef list" where
  "example_tools =
     [\<lparr>ToolDef.Type = ''function'',
       Function = \<lparr>FunctionSchema.Name = ''search_internet'', Description = ''Recherche sur internet'',
                   Strict = True, Parameters = ''{}''\<rparr>\<rparr>]"

definition query_y :: string where
  \<open>query_y = ''{"query":"y"}''\<close>

section \<open>Decoding the tool arguments\<close>

text \<open>
  \<open>encoding/json\<close> is not part of the repository. What follows is a model of
  \<open>json.Unmarshal\<close> into a \<open>SearchArgs\<close>, after the library's documentation: the text is
  checked against the JSON grammar first, then stored into the struct.
\<close>

text \<open>A JSON value. A number keeps its literal; a string and a key are kept decoded.\<close>

datatype json =
    JNull
  | JBool bool
  | JNumber string
  | JString string
  | JArray "json list"
  | JObject "(string \<times> json) list"

text \<open>The tokens of a JSON text.\<close>

datatype token =
    TBeginObject | TEndObject | TBeginArray | TEndArray | TColon | TComma
  | TString string | TNumber string | TTrue | TFalse | TNull

text \<open>A string is the list of its bytes; \<open>byte\<close> is the value of one.\<close>

definition byte :: "char \<Rightarrow> nat" where
  "byte c = of_char c"

definition is_space :: "char \<Rightarrow> bool" where
  "is_space c \<longleftrightarrow> c = CHR '' '' \<or> c = CHR 0x09 \<or> c = CHR 0x0D \<or> c = CHR 0x0A"

definition is_digit :: "char \<Rightarrow> bool" where
  "is_digit c \<longleftrightarrow> 48 \<le> byte c \<and> byte c \<le> 57"

definition hex_digit :: "char \<Rightarrow> nat option" where
  "hex_digit c =
     (let n = byte c
      in if 48 \<le> n \<and> n \<le> 57 then Some (n - 48)
         else if 97 \<le> n \<and> n \<le> 102 then Some (n - 97 + 10)
         else if 65 \<le> n \<and> n \<le> 70 then Some (n - 65 + 10)
         else None)"

text \<open>\<open>getu4\<close>: the code unit of a backslash, the letter u and four hexadecimal digits at
  the head of the text.\<close>

definition getu4 :: "string \<Rightarrow> nat option" where
  "getu4 s =
     (case s of
        b # u # h1 # h2 # h3 # h4 # _ \<Rightarrow>
          if b = CHR 0x5C \<and> u = CHR ''u'' then
            (case (hex_digit h1, hex_digit h2, hex_digit h3, hex_digit h4) of
               (Some a, Some b, Some c, Some d) \<Rightarrow> Some (((a * 16 + b) * 16 + c) * 16 + d)
             | _ \<Rightarrow> None)
          else None
      | _ \<Rightarrow> None)"

text \<open>
  The scanner inside a string literal: the number of bytes the literal takes after its
  opening quote, the closing quote included. A byte below 0x20 and an escape other than
  the nine of JSON are syntax errors.
\<close>

fun string_end :: "string \<Rightarrow> nat option" where
  "string_end [] = None"
| "string_end (c # cs) =
     (if c = CHR 0x22 then Some 1
      else if byte c < 32 then None
      else if c = CHR 0x5C then
        (case cs of
           [] \<Rightarrow> None
         | e # rest \<Rightarrow>
             if e = CHR ''u'' then
               (case getu4 (c # cs) of
                  None \<Rightarrow> None
                | Some _ \<Rightarrow> map_option (\<lambda>n. n + 6) (string_end (drop 4 rest)))
             else if e \<in> set ''bfnrt/'' \<or> e = CHR 0x5C \<or> e = CHR 0x22 then
               map_option (\<lambda>n. n + 2) (string_end rest)
             else None)
      else map_option Suc (string_end cs))"

text \<open>\<open>utf8.EncodeRune\<close> for a code point that is not a surrogate.\<close>

definition utf8_encode :: "nat \<Rightarrow> string" where
  "utf8_encode r =
     (if r < 0x80 then [char_of r]
      else if r < 0x800 then [char_of (0xC0 + r div 64), char_of (0x80 + r mod 64)]
      else if r < 0x10000 then
        [char_of (0xE0 + r div 4096), char_of (0x80 + r div 64 mod 64), char_of (0x80 + r mod 64)]
      else
        [char_of (0xF0 + r div 262144), char_of (0x80 + r div 4096 mod 64),
         char_of (0x80 + r div 64 mod 64), char_of (0x80 + r mod 64)])"

text \<open>U+FFFD, which stands in for what cannot be decoded.\<close>

definition replacement :: string where
  "replacement = utf8_encode 0xFFFD"

definition is_cont :: "char \<Rightarrow> bool" where
  "is_cont c \<longleftrightarrow> 0x80 \<le> byte c \<and> byte c \<le> 0xBF"

text \<open>
  The length of the well-formed UTF-8 sequence at the head of the text, 0 when there is
  none (\<open>utf8.DecodeRune\<close> then returns the error rune with width 1).
\<close>

definition utf8_len :: "string \<Rightarrow> nat" where
  "utf8_len s =
     (case s of
        [] \<Rightarrow> 0
      | c0 # s1 \<Rightarrow>
          (let b0 = byte c0
           in if 0xC2 \<le> b0 \<and> b0 \<le> 0xDF then
                (case s1 of c1 # _ \<Rightarrow> if is_cont c1 then 2 else 0 | _ \<Rightarrow> 0)
              else if 0xE0 \<le> b0 \<and> b0 \<le> 0xEF then
                (case s1 of
                   c1 # c2 # _ \<Rightarrow>
                     if (if b0 = 0xE0 then 0xA0 else 0x80) \<le> byte c1 \<and>
                        byte c1 \<le> (if b0 = 0xED then 0x9F else 0xBF) \<and> is_cont c2
                     then 3 else 0
                 | _ \<Rightarrow> 0)
              else if 0xF0 \<le> b0 \<and> b0 \<le> 0xF4 then
                (case s1 of
                   c1 # c2 # c3 # _ \<Rightarrow>
                     if (if b0 = 0xF0 then 0x90 else 0x80) \<le> byte c1 \<and>
                        byte c1 \<le> (if b0 = 0xF4 then 0x8F else 0xBF) \<and> is_cont c2 \<and> is_cont c3
                     then 4 else 0
                 | _ \<Rightarrow> 0)
              else 0))"

text \<open>The byte a one-letter escape stands for.\<close>

definition unescape :: "char \<Rightarrow> char" where
  "unescape e =
     (if e = CHR ''b'' then CHR 0x08
      else if e = CHR ''f'' then CHR 0x0C
      else if e = CHR ''n'' then CHR 0x0A
      else if e = CHR ''r'' then CHR 0x0D
      else if e = CHR ''t'' then CHR 0x09
      else e)"

text \<open>
  \<open>unquoteBytes\<close> on the body of a literal the scanner accepted: escapes are replaced, a
  surrogate pair becomes one code point, a surrogate without its partner and every byte
  that is not part of well-formed UTF-8 become U+FFFD.
\<close>

fun unquote :: "string \<Rightarrow> string" where
  "unquote [] = []"
| "unquote (c # cs) =
     (if c = CHR 0x5C then
        (case cs of
           [] \<Rightarrow> []
         | e # rest \<Rightarrow>
             if e = CHR ''u'' then
               (case getu4 (c # cs) of
                  None \<Rightarrow> []
                | Some rr \<Rightarrow>
                    if 0xD800 \<le> rr \<and> rr < 0xE000 then
                      (case getu4 (drop 4 rest) of
                         None \<Rightarrow> replacement @ unquote (drop 4 rest)
                       | Some rr1 \<Rightarrow>
                           if rr < 0xDC00 \<and> 0xDC00 \<le> rr1 \<and> rr1 < 0xE000 then
                             utf8_encode ((rr - 0xD800) * 1024 + (rr1 - 0xDC00) + 0x10000)
                               @ unquote (drop 10 rest)
                           else replacement @ unquote (drop 4 rest))
                    else utf8_encode rr @ unquote (drop 4 rest))
             else unescape e # unquote rest)
      else if byte c < 0x80 then c # unquote cs
      else if utf8_len (c # cs) = 0 then replacement @ unquote cs
      else take (utf8_len (c # cs)) (c # cs) @ unquote (drop (utf8_len (c # cs) - 1) cs))"

text \<open>
  The length of the number literal at the head of the text, if there is one: an optional
  minus, a zero or a run of digits, an optional fraction, an optional exponent.
\<close>

definition digits :: "string \<Rightarrow> nat" where
  "digits s = length (takeWhile is_digit s)"

definition number_end :: "string \<Rightarrow> nat option" where
  "number_end s =
     (let m = (case s of c # _ \<Rightarrow> if c = CHR ''-'' then 1 else 0 | [] \<Rightarrow> 0);
          s1 = drop m s;
          i = (case s1 of c # _ \<Rightarrow> if c = CHR ''0'' then 1 else digits s1 | [] \<Rightarrow> 0)
      in if i = 0 then None
         else
           (let s2 = drop i s1;
                f = (case s2 of c # r \<Rightarrow> if c = CHR ''.'' then Some (digits r) else None | [] \<Rightarrow> None)
            in case f of
                 Some 0 \<Rightarrow> None
               | _ \<Rightarrow>
                 (let fl = (case f of Some k \<Rightarrow> 1 + k | None \<Rightarrow> 0);
                      s3 = drop fl s2;
                      e = (case s3 of
                             c # r \<Rightarrow>
                               if c = CHR ''e'' \<or> c = CHR ''E'' then
                                 (let sg = (case r of d # _ \<Rightarrow> if d = CHR ''+'' \<or> d = CHR ''-'' then 1 else 0 | [] \<Rightarrow> 0)
                                  in Some (sg, digits (drop sg r)))
                               else None
                           | [] \<Rightarrow> None)
                  in case e of
                       Some (sg, 0) \<Rightarrow> None
                     | Some (sg, k) \<Rightarrow> Some (m + i + fl + 1 + sg + k)
                     | None \<Rightarrow> Some (m + i + fl))))"

text \<open>The text as tokens; \<open>None\<close> when some byte starts no token.\<close>

fun tokens :: "string \<Rightarrow> token list option" where
  "tokens [] = Some []"
| "tokens (c # cs) =
     (if is_space c then tokens cs
      else if c = CHR ''{'' then map_option (Cons TBeginObject) (tokens cs)
      else if c = CHR ''}'' then map_option (Cons TEndObject) (tokens cs)
      else if c = CHR ''['' then map_option (Cons TBeginArray) (tokens cs)
      else if c = CHR '']'' then map_option (Cons TEndArray) (tokens cs)
      else if c = CHR '':'' then map_option (Cons TColon) (tokens cs)
      else if c = CHR '','' then map_option (Cons TComma) (tokens cs)
      else if c = CHR 0x22 then
        (case string_end cs of
           None \<Rightarrow> None
         | Some n \<Rightarrow> map_option (Cons (TString (unquote (take (n - 1) cs)))) (tokens (drop n cs)))
      else if c = CHR ''-'' \<or> is_digit c then
        (case number_end (c # cs) of
           None \<Rightarrow> None
         | Some n \<Rightarrow> map_option (Cons (TNumber (take n (c # cs)))) (tokens (drop (n - 1) cs)))
      else if take 4 (c # cs) = ''true'' then map_option (Cons TTrue) (tokens (drop 3 cs))
      else if take 5 (c # cs) = ''false'' then map_option (Cons TFalse) (tokens (drop 4 cs))
      else if take 4 (c # cs) = ''null'' then map_option (Cons TNull) (tokens (drop 3 cs))
      else None)"

text \<open>
  The scanner over tokens, with the states of the library's scanner and the stack of its
  open arrays and objects. A frame holds what the container has so far; an object frame
  also holds the key read last.
\<close>

datatype frame =
    ArrayFrame "json list"
  | ObjectFrame "(string \<times> json) list" string

datatype scan_state =
    BeginValue | BeginValueOrEmpty | BeginStringOrEmpty | BeginString | ObjectKey | EndValue
  | EndTop json

text \<open>A value is complete: it is the top-level value, or it joins the innermost open container.\<close>

definition end_value :: "json \<Rightarrow> frame list \<Rightarrow> scan_state \<times> frame list" where
  "end_value v stack =
     (case stack of
        [] \<Rightarrow> (EndTop v, [])
      | ArrayFrame vs # below \<Rightarrow> (EndValue, ArrayFrame (vs @ [v]) # below)
      | ObjectFrame ms k # below \<Rightarrow> (EndValue, ObjectFrame (ms @ [(k, v)]) k # below))"

definition maxNestingDepth :: nat where
  "maxNestingDepth = 10000"

text \<open>A token where a value may start. A container deeper than \<open>maxNestingDepth\<close> is a syntax error.\<close>

definition begin_value :: "token \<Rightarrow> frame list \<Rightarrow> (scan_state \<times> frame list) option" where
  "begin_value t stack =
     (case t of
        TString s \<Rightarrow> Some (end_value (JString s) stack)
      | TNumber n \<Rightarrow> Some (end_value (JNumber n) stack)
      | TTrue \<Rightarrow> Some (end_value (JBool True) stack)
      | TFalse \<Rightarrow> Some (end_value (JBool False) stack)
      | TNull \<Rightarrow> Some (end_value JNull stack)
      | TBeginArray \<Rightarrow>
          if length stack < maxNestingDepth then Some (BeginValueOrEmpty, ArrayFrame [] # stack) else None
      | TBeginObject \<Rightarrow>
          if length stack < maxNestingDepth then Some (BeginStringOrEmpty, ObjectFrame [] [] # stack) else None
      | _ \<Rightarrow> None)"

definition scan_step :: "scan_state \<Rightarrow> frame list \<Rightarrow> token \<Rightarrow> (scan_state \<times> frame list) option" where
  "scan_step st stack t =
     (case st of
        BeginValue \<Rightarrow> begin_value t stack
      | BeginValueOrEmpty \<Rightarrow>
          (case (t, stack) of
             (TEndArray, ArrayFrame vs # below) \<Rightarrow> Some (end_value (JArray vs) below)
           | _ \<Rightarrow> begin_value t stack)
      | BeginStringOrEmpty \<Rightarrow>
          (case (t, stack) of
             (TEndObject, ObjectFrame ms k # below) \<Rightarrow> Some (end_value (JObject ms) below)
           | (TString s, ObjectFrame ms k # below) \<Rightarrow> Some (ObjectKey, ObjectFrame ms s # below)
           | _ \<Rightarrow> None)
      | BeginString \<Rightarrow>
          (case (t, stack) of
             (TString s, ObjectFrame ms k # below) \<Rightarrow> Some (ObjectKey, ObjectFrame ms s # below)
           | _ \<Rightarrow> None)
      | ObjectKey \<Rightarrow> (case t of TColon \<Rightarrow> Some (BeginValue, stack) | _ \<Rightarrow> None)
      | EndValue \<Rightarrow>
          (case (t, stack) of
             (TComma, ArrayFrame vs # below) \<Rightarrow> Some (BeginValue, stack)
           | (TComma, ObjectFrame ms k # below) \<Rightarrow> Some (BeginString, stack)
           | (TEndArray, ArrayFrame vs # below) \<Rightarrow> Some (end_value (JArray vs) below)
           | (TEndObject, ObjectFrame ms k # below) \<Rightarrow> Some (end_value (JObject ms) below)
           | _ \<Rightarrow> None)
      | EndTop v \<Rightarrow> None)"

fun scan :: "scan_state \<Rightarrow> frame list \<Rightarrow> token list \<Rightarrow> json option" where
  "scan st stack [] = (case st of EndTop v \<Rightarrow> Some v | _ \<Rightarrow> None)"
| "scan st stack (t # ts) =
     (case scan_step st stack t of
        None \<Rightarrow> None
      | Some (st', stack') \<Rightarrow> scan st' stack' ts)"

text \<open>\<open>checkValid\<close> and the value it accepts; \<open>None\<close> is a syntax error.\<close>

definition json_parse :: "string \<Rightarrow> json option" where
  "json_parse s = (case tokens s of None \<Rightarrow> None | Some ts \<Rightarrow> scan BeginValue [] ts)"

text \<open>
  A key names the field \<open>Query\<close> (tag \<open>query\<close>) when it equals the tag up to the case of
  ASCII letters. No letter outside ASCII folds to a letter of the tag.
\<close>

definition fold_byte :: "char \<Rightarrow> nat" where
  "fold_byte c = (if 97 \<le> byte c \<and> byte c \<le> 122 then byte c - 32 else byte c)"

definition names_Query :: "string \<Rightarrow> bool" where
  "names_Query key \<longleftrightarrow> map fold_byte key = map fold_byte ''query''"

text \<open>
  One member of the object stored into the struct. The accumulator is the field so far
  and whether an \<open>UnmarshalTypeError\<close> has been saved. A string is stored, \<open>null\<close> leaves
  the field as it is, any other value saves an error; a member with another key is skipped.
\<close>

definition store_member :: "string \<times> bool \<Rightarrow> string \<times> json \<Rightarrow> string \<times> bool" where
  "store_member acc m =
     (if names_Query (fst m) then
        (case snd m of
           JString s \<Rightarrow> (s, snd acc)
         | JNull \<Rightarrow> acc
         | _ \<Rightarrow> (fst acc, True))
      else acc)"

text \<open>
  \<open>json.Unmarshal(data, &args)\<close> for a zero \<open>args\<close> of type \<open>SearchArgs\<close>: \<open>None\<close> when
  it returns an error. A top-level \<open>null\<close> leaves the struct as it is; a top-level value
  that is neither \<open>null\<close> nor an object is an \<open>UnmarshalTypeError\<close>.
\<close>

definition Unmarshal_SearchArgs :: "string \<Rightarrow> SearchArgs option" where
  "Unmarshal_SearchArgs s =
     (case json_parse s of
        None \<Rightarrow> None
      | Some JNull \<Rightarrow> Some \<lparr>Query = ''''\<rparr>
      | Some (JObject ms) \<Rightarrow>
          (case foldl store_member ('''', False) ms of
             (q, True) \<Rightarrow> None
           | (q, False) \<Rightarrow> Some \<lparr>Query = q\<rparr>)
      | Some _ \<Rightarrow> None)"

section \<open>The rate limiter: what \<open>Allow\<close> does\<close>

text \<open>The loop keeps, in order, the instants later than the cutoff.\<close>

lemma prune_filter: "prune cutoff tss valid = valid @ filter (\<lambda>ts. cutoff < ts) tss"
  by (induction tss arbitrary: valid) (simp_all add: time_After_def)

text \<open>The three ways a call ends.\<close>

lemma Allow_admits:
  "int (length (remaining rl now userID)) < limit rl \<Longrightarrow>
   Allow rl now userID =
     Inr ((True, 0), rl\<lparr>requests := (requests rl)(userID \<mapsto> remaining rl now userID @ [now])\<rparr>)"
  by (simp add: Allow_def Let_def prune_filter remaining_def stored_def time_Add_def time_After_def)

lemma Allow_denies:
  "limit rl \<le> int (length (remaining rl now userID)) \<Longrightarrow> remaining rl now userID = oldest # others \<Longrightarrow>
   Allow rl now userID =
     Inr ((False, time_Sub (time_Add oldest (window rl)) now), rl\<lparr>requests := (requests rl)(userID \<mapsto> remaining rl now userID)\<rparr>)"
  by (simp add: Allow_def Let_def prune_filter remaining_def stored_def time_Add_def time_After_def)

lemma Allow_panics:
  "limit rl \<le> 0 \<Longrightarrow> remaining rl now userID = [] \<Longrightarrow> Allow rl now userID = Inl IndexOutOfRange"
  by (simp add: Allow_def Let_def prune_filter remaining_def stored_def time_Add_def time_After_def)

text \<open>
  The least window negates to itself, so the cutoff lies far in the past: the recorded
  instant stays, the call is denied and the wait saturates.
\<close>

lemma Allow_least_window_denies:
  "Allow \<lparr>limit = 1, window = - 9223372036854775808, requests = [''u'' \<mapsto> [0]]\<rparr> 5 ''u'' =
     Inr ((False, - 9223372036854775808),
          \<lparr>limit = 1, window = - 9223372036854775808, requests = [''u'' \<mapsto> [0]]\<rparr>)"
  by (simp add: Allow_def Let_def time_Add_def time_Sub_def time_After_def Duration_neg_def
        minDuration_def maxDuration_def)

lemma Duration_neg_positive: "0 < d \<Longrightarrow> Duration_neg d = - d"
  by (simp add: Duration_neg_def minDuration_def)

text \<open>
  With a limit of at least one, or with an instant left after pruning, \<open>Allow\<close> returns:
  it admits and records \<open>now\<close> while fewer than \<open>limit\<close> instants remain, and otherwise
  denies, records nothing and tells how long until the oldest remaining instant expires.
\<close>

lemma Allow_behaviour:
  assumes "0 < limit rl \<or> remaining rl now userID \<noteq> []"
  shows "Allow rl now userID =
     (if int (length (remaining rl now userID)) < limit rl
      then Inr ((True, 0), rl\<lparr>requests := (requests rl)(userID \<mapsto> remaining rl now userID @ [now])\<rparr>)
      else Inr ((False, time_Sub (time_Add (hd (remaining rl now userID)) (window rl)) now),
                rl\<lparr>requests := (requests rl)(userID \<mapsto> remaining rl now userID)\<rparr>))"
proof (cases "int (length (remaining rl now userID)) < limit rl")
  case True
  then show ?thesis by (simp add: Allow_admits)
next
  case False
  with assms obtain oldest others where r: "remaining rl now userID = oldest # others"
    by (cases "remaining rl now userID") auto
  from False have "limit rl \<le> int (length (remaining rl now userID))" by simp
  from Allow_denies[OF this r] False r show ?thesis by simp
qed

lemma Allow_cases:
  assumes "Allow rl now userID = Inr (r, rl')"
  shows "(r = (True, 0) \<and> int (length (remaining rl now userID)) < limit rl \<and>
            rl' = rl\<lparr>requests := (requests rl)(userID \<mapsto> remaining rl now userID @ [now])\<rparr>) \<or>
         (fst r = False \<and> limit rl \<le> int (length (remaining rl now userID)) \<and>
            rl' = rl\<lparr>requests := (requests rl)(userID \<mapsto> remaining rl now userID)\<rparr>)"
proof (cases "int (length (remaining rl now userID)) < limit rl")
  case True
  with assms Allow_admits[OF True] show ?thesis by simp
next
  case False
  then have le: "limit rl \<le> int (length (remaining rl now userID))" by simp
  show ?thesis
  proof (cases "remaining rl now userID")
    case Nil
    with le assms show ?thesis
      by (simp add: Allow_def Let_def prune_filter remaining_def stored_def time_Add_def time_After_def)
  next
    case (Cons oldest others)
    with assms Allow_denies[OF le Cons] le show ?thesis by auto
  qed
qed

subsection \<open>The recorded instants stay ascending\<close>

lemma sorted_filter_suffix:
  "sorted tss \<Longrightarrow> suffix (filter (\<lambda>ts. (c::int) < ts) tss) tss"
proof (induction tss)
  case Nil
  then show ?case by simp
next
  case (Cons a tss)
  show ?case
  proof (cases "c < a")
    case True
    with Cons.prems have "\<forall>x \<in> set tss. c < x" by auto
    then have "filter (\<lambda>ts. c < ts) tss = tss" by simp
    with True show ?thesis by simp
  next
    case False
    with Cons show ?thesis by (simp add: suffix_Cons)
  qed
qed

lemma stored_ascending:
  "ascending_upto rl t \<Longrightarrow> sorted (stored rl k) \<and> (\<forall>x \<in> set (stored rl k). x \<le> t)"
  by (auto simp: ascending_upto_def stored_def split: option.splits)

lemma Allow_ascending:
  assumes inv: "ascending_upto rl t" and mono: "t \<le> now" and run: "Allow rl now userID = Inr (r, rl')"
  shows "ascending_upto rl' now"
proof -
  from stored_ascending[OF inv, of userID]
  have s: "sorted (remaining rl now userID)" and b: "\<forall>x \<in> set (remaining rl now userID). x \<le> now"
    using mono by (auto simp: remaining_def sorted_wrt_filter)
  then have s': "sorted (remaining rl now userID @ [now])"
    by (simp add: sorted_append)
  from Allow_cases[OF run]
  have "requests rl' = (requests rl)(userID \<mapsto> remaining rl now userID) \<or>
        requests rl' = (requests rl)(userID \<mapsto> remaining rl now userID @ [now])"
    by auto
  then obtain new where
    new: "new = remaining rl now userID \<or> new = remaining rl now userID @ [now]"
    and rl': "requests rl' = (requests rl)(userID \<mapsto> new)"
    by blast
  from new s s' b have good: "sorted new \<and> (\<forall>x \<in> set new. x \<le> now)" by auto
  show ?thesis
    unfolding ascending_upto_def
  proof (intro allI impI)
    fix k tss
    assume look: "requests rl' k = Some tss"
    show "sorted tss \<and> (\<forall>x \<in> set tss. x \<le> now)"
    proof (cases "k = userID")
      case True
      with look rl' have "tss = new" by simp
      with good show ?thesis by simp
    next
      case False
      with look rl' have "requests rl k = Some tss" by simp
      with inv mono show ?thesis by (fastforce simp: ascending_upto_def)
    qed
  qed
qed

lemma Allow_seq_ascending:
  "ascending_upto rl t \<Longrightarrow> sorted (t # map fst calls) \<Longrightarrow> Allow_seq rl calls = Inr (rs, rl') \<Longrightarrow>
   ascending_upto rl' (last (t # map fst calls))"
proof (induction calls arbitrary: rl t rs)
  case Nil
  then show ?case by simp
next
  case (Cons c calls)
  obtain now k where c: "c = (now, k)" by (cases c)
  from Cons.prems(3) c obtain r rl1 rs1 where
    a: "Allow rl now k = Inr (r, rl1)" and rest: "Allow_seq rl1 calls = Inr (rs1, rl')"
    by (auto split: sum.splits prod.splits)
  from Cons.prems(2) c have "t \<le> now" and srt: "sorted (now # map fst calls)" by auto
  from Allow_ascending[OF Cons.prems(1) \<open>t \<le> now\<close> a] have "ascending_upto rl1 now" .
  from Cons.IH[OF this srt rest] show ?case using c by simp
qed

lemma fresh_ascending: "ascending_upto (NewRateLimiter l w) t"
  by (simp add: ascending_upto_def NewRateLimiter_def)


subsection \<open>Calls that take the mutex one after the other\<close>

lemma stored_update: "stored (rl\<lparr>requests := (requests rl)(k \<mapsto> tss)\<rparr>) k = tss"
  by (simp add: stored_def)

lemma Allow_seq_within_window:
  assumes "0 < limit rl"
    and "\<forall>x \<in> set (stored rl k). \<forall>t \<in> set nows. t - window rl < x"
    and "\<forall>t \<in> set nows. \<forall>u \<in> set nows. t - u < window rl"
    and "int (length (stored rl k)) \<le> limit rl"
  shows "\<exists>rs rl'. Allow_seq rl (map (\<lambda>t. (t, k)) nows) = Inr (rs, rl') \<and> length rs = length nows \<and>
           length (filter fst rs) = min (nat (limit rl) - length (stored rl k)) (length nows)"
  using assms
proof (induction nows arbitrary: rl)
  case Nil
  then show ?case by simp
next
  case (Cons now nows)
  from Cons.prems(3) have "0 < window rl" by fastforce
  then have "Duration_neg (window rl) = - window rl" by (rule Duration_neg_positive)
  with Cons.prems(2) have keep: "remaining rl now k = stored rl k"
    by (simp add: remaining_def time_After_def time_Add_def)
  show ?case
  proof (cases "int (length (stored rl k)) < limit rl")
    case True
    define rl1 where "rl1 = rl\<lparr>requests := (requests rl)(k \<mapsto> stored rl k @ [now])\<rparr>"
    from True keep have a: "Allow rl now k = Inr ((True, 0), rl1)"
      by (simp add: Allow_admits rl1_def)
    have p1: "0 < limit rl1" using Cons.prems(1) by (simp add: rl1_def stored_update)
    have p2: "\<forall>x \<in> set (stored rl1 k). \<forall>t \<in> set nows. t - window rl1 < x"
      using Cons.prems(2,3) by (fastforce simp: rl1_def stored_update)
    have p3: "\<forall>t \<in> set nows. \<forall>u \<in> set nows. t - u < window rl1"
      using Cons.prems(3) by (simp add: rl1_def stored_update)
    have p4: "int (length (stored rl1 k)) \<le> limit rl1"
      using True by (simp add: rl1_def stored_update)
    from Cons.IH[OF p1 p2 p3 p4] obtain rs rl' where
      r: "Allow_seq rl1 (map (\<lambda>t. (t, k)) nows) = Inr (rs, rl')" "length rs = length nows"
         "length (filter fst rs) = min (nat (limit rl1) - length (stored rl1 k)) (length nows)"
      by blast
    have "Allow_seq rl (map (\<lambda>t. (t, k)) (now # nows)) = Inr ((True, 0) # rs, rl')"
      using a r(1) by simp
    moreover have "length (filter fst ((True, 0) # rs)) =
        min (nat (limit rl) - length (stored rl k)) (length (now # nows))"
      using r(3) True by (simp add: rl1_def stored_update) linarith
    ultimately show ?thesis using r(2) by simp
  next
    case False
    with Cons.prems(4) have full: "int (length (stored rl k)) = limit rl" by simp
    with Cons.prems(1) obtain oldest others where st: "stored rl k = oldest # others"
      by (cases "stored rl k") auto
    define rl1 where "rl1 = rl\<lparr>requests := (requests rl)(k \<mapsto> stored rl k)\<rparr>"
    from full keep st have a: "Allow rl now k = Inr ((False, time_Sub (time_Add oldest (window rl)) now), rl1)"
      by (simp add: Allow_denies rl1_def)
    have p1: "0 < limit rl1" using Cons.prems(1) by (simp add: rl1_def stored_update)
    have p2: "\<forall>x \<in> set (stored rl1 k). \<forall>t \<in> set nows. t - window rl1 < x"
      using Cons.prems(2) by (simp add: rl1_def stored_update)
    have p3: "\<forall>t \<in> set nows. \<forall>u \<in> set nows. t - u < window rl1"
      using Cons.prems(3) by (simp add: rl1_def stored_update)
    have p4: "int (length (stored rl1 k)) \<le> limit rl1"
      using full by (simp add: rl1_def stored_update)
    from Cons.IH[OF p1 p2 p3 p4] obtain rs rl' where
      r: "Allow_seq rl1 (map (\<lambda>t. (t, k)) nows) = Inr (rs, rl')" "length rs = length nows"
         "length (filter fst rs) = min (nat (limit rl1) - length (stored rl1 k)) (length nows)"
      by blast
    have "Allow_seq rl (map (\<lambda>t. (t, k)) (now # nows)) =
        Inr ((False, time_Sub (time_Add oldest (window rl)) now) # rs, rl')"
      using a r(1) by simp
    moreover have "length (filter fst ((False, time_Sub (time_Add oldest (window rl)) now) # rs)) =
        min (nat (limit rl) - length (stored rl k)) (length (now # nows))"
      using r(3) full by (simp add: rl1_def stored_update)
    ultimately show ?thesis using r(2) by simp
  qed
qed

lemma length_filter_not:
  "length (filter (\<lambda>r. \<not> fst r) rs) = length rs - length (filter fst rs)"
  using sum_length_filter_compl[of fst rs] by simp

text \<open>
  Claim C1. A limiter built with limit 0 is a state the constructor gives. Its first call
  for any key finds no instant, passes the test \<open>len(valid) >= rl.limit\<close> and reads
  \<open>valid[0]\<close>: the call panics where the doc comment of \<open>Allow\<close> and the claim say it
  returns \<open>(false, retryAfter)\<close>. (\<open>Allow_behaviour\<close> above is the claim for the other
  states.)
\<close>

theorem Allow_zero_limit_panics:
  "Allow (NewRateLimiter 0 w) now userID = Inl IndexOutOfRange"
  by (simp add: Allow_def NewRateLimiter_def Let_def)

text \<open>
  Claim C9. A fresh limiter holds only ascending sequences. A call that reads a clock
  not behind the instants recorded so far keeps them ascending: what pruning keeps is a
  suffix of the stored sequence, and the new sequence is that suffix, with \<open>now\<close> added
  at its end when the call admits. So after any sequence of calls whose clock readings
  never decrease, every recorded sequence is sorted. This holds for every window: the
  cutoff is the one the code computes, with the 64-bit negation of the window
  (\<open>Allow_least_window_denies\<close> is the call at the least window).
\<close>

theorem Allow_keeps_ascending:
  "ascending_upto (NewRateLimiter l w) t0 \<and>
   (ascending_upto rl t \<and> t \<le> now \<and> Allow rl now userID = Inr (r, rl') \<longrightarrow>
      ascending_upto rl' now \<and>
      suffix (remaining rl now userID) (stored rl userID) \<and>
      stored rl' userID = remaining rl now userID @ (if fst r then [now] else [])) \<and>
   (sorted (map fst calls) \<and> Allow_seq (NewRateLimiter l w) calls = Inr (rs, rl'') \<and>
      requests rl'' k = Some tss \<longrightarrow> sorted tss)"
proof (intro conjI impI)
  show "ascending_upto (NewRateLimiter l w) t0" by (rule fresh_ascending)
next
  assume h: "ascending_upto rl t \<and> t \<le> now \<and> Allow rl now userID = Inr (r, rl')"
  then show "ascending_upto rl' now" using Allow_ascending by blast
  from h stored_ascending[of rl t userID]
  show "suffix (remaining rl now userID) (stored rl userID)"
    by (simp add: remaining_def time_After_def sorted_filter_suffix)
  from h Allow_cases[of rl now userID r rl']
  show "stored rl' userID = remaining rl now userID @ (if fst r then [now] else [])"
    by (auto simp: stored_update)
next
  assume h: "sorted (map fst calls) \<and> Allow_seq (NewRateLimiter l w) calls = Inr (rs, rl'') \<and>
      requests rl'' k = Some tss"
  show "sorted tss"
  proof (cases calls)
    case Nil
    with h show ?thesis by (auto simp: NewRateLimiter_def)
  next
    case (Cons c cs)
    with h have s: "sorted (fst c # map fst calls)" by simp
    from Allow_seq_ascending[OF fresh_ascending s] h
    have "ascending_upto rl'' (last (fst c # map fst calls))" by blast
    with h show ?thesis unfolding ascending_upto_def by blast
  qed
qed

theorem Allow_keeps_ascending_witness:
  "Allow_seq (NewRateLimiter 2 10) [(0, ''u''), (4, ''u''), (12, ''u''), (13, ''u''), (14, ''u'')] =
     Inr ([(True, 0), (True, 0), (True, 0), (False, 1), (True, 0)],
          \<lparr>limit = 2, window = 10, requests = [''u'' \<mapsto> [12, 14]]\<rparr>) \<and>
   sorted [12, 14 :: int] \<and>
   Allow \<lparr>limit = 2, window = 10, requests = [''u'' \<mapsto> [0, 4]]\<rparr> 12 ''u'' =
     Inr ((True, 0), \<lparr>limit = 2, window = 10, requests = [''u'' \<mapsto> [4, 12]]\<rparr>) \<and>
   suffix [4 :: int] [0, 4] \<and>
   ascending_upto \<lparr>limit = 2, window = 10, requests = [''u'' \<mapsto> [4, 12]]\<rparr> 12"
proof -
  let ?calls = "[(0, ''u''), (4, ''u''), (12, ''u''), (13, ''u''), (14, ''u'')] :: (int \<times> string) list"
  let ?end = "\<lparr>limit = 2, window = 10, requests = [''u'' \<mapsto> [12, 14 :: int]]\<rparr>"
  let ?mid = "\<lparr>limit = 2, window = 10, requests = [''u'' \<mapsto> [0, 4 :: int]]\<rparr>"
  let ?mid' = "\<lparr>limit = 2, window = 10, requests = [''u'' \<mapsto> [4, 12 :: int]]\<rparr>"
  have run: "Allow_seq (NewRateLimiter 2 10) ?calls =
      Inr ([(True, 0), (True, 0), (True, 0), (False, 1), (True, 0)], ?end)"
    by (simp add: Allow_def NewRateLimiter_def Let_def time_Add_def time_Sub_def time_After_def
          Duration_neg_def minDuration_def maxDuration_def)
  have step: "Allow ?mid 12 ''u'' = Inr ((True, 0), ?mid')"
    by (simp add: Allow_def Let_def time_Add_def time_Sub_def time_After_def
          Duration_neg_def minDuration_def maxDuration_def)
  have inv: "ascending_upto ?mid 4"
    by (simp add: ascending_upto_def)
  have rem: "remaining ?mid 12 ''u'' = [4]" and sto: "stored ?mid ''u'' = [0, 4]"
    by (simp_all add: remaining_def stored_def time_After_def time_Add_def Duration_neg_def
          minDuration_def)
  from Allow_keeps_ascending[of 2 10 0 ?mid 4 12 "''u''" "(True, 0)" ?mid' ?calls
      "[(True, 0), (True, 0), (True, 0), (False, 1), (True, 0)]" ?end "''u''" "[12, 14]"]
    run step inv rem sto
  show ?thesis by simp
qed

text \<open>
  Claim C8, as the code has it. Calls for one key that take the mutex one after the
  other, on a fresh limiter with a limit of at least one: when any two of their clock
  readings differ by less than the window, exactly \<open>L\<close> of the \<open>N > L\<close> calls return true
  and \<open>N - L\<close> return false.
\<close>

theorem Allow_concurrent_within_window:
  assumes "0 < L" and "L < int (length nows)"
    and "\<forall>t \<in> set nows. \<forall>u \<in> set nows. t - u < W"
  shows "\<exists>rs rl'. Allow_seq (NewRateLimiter L W) (map (\<lambda>t. (t, userID)) nows) = Inr (rs, rl') \<and>
           int (length (filter fst rs)) = L \<and>
           int (length (filter (\<lambda>r. \<not> fst r) rs)) = int (length nows) - L"
proof -
  let ?rl = "NewRateLimiter L W"
  have st: "stored ?rl userID = []" by (simp add: stored_def NewRateLimiter_def)
  have lw: "limit ?rl = L" "window ?rl = W" by (simp_all add: NewRateLimiter_def)
  from Allow_seq_within_window[of ?rl userID nows] assms st lw
  obtain rs rl' where
    r: "Allow_seq ?rl (map (\<lambda>t. (t, userID)) nows) = Inr (rs, rl')" "length rs = length nows"
       "length (filter fst rs) = min (nat L) (length nows)"
    by auto
  from r(3) assms(1,2) have c: "int (length (filter fst rs)) = L" by simp
  with r(2) have "int (length (filter (\<lambda>r. \<not> fst r) rs)) = int (length nows) - L"
    using assms(2) by (simp add: length_filter_not)
  with r(1) c show ?thesis by blast
qed

theorem Allow_concurrent_within_window_witness:
  "Allow_seq (NewRateLimiter 2 10) [(0, ''u''), (3, ''u''), (5, ''u'')] =
     Inr ([(True, 0), (True, 0), (False, 5)], \<lparr>limit = 2, window = 10, requests = [''u'' \<mapsto> [0, 3]]\<rparr>) \<and>
   int (length (filter fst [(True, 0::int), (True, 0), (False, 5)])) = 2 \<and>
   int (length (filter (\<lambda>r. \<not> fst r) [(True, 0::int), (True, 0), (False, 5)])) = 3 - 2"
proof -
  have h1: "(0::int) < 2" and h2: "(2::int) < int (length [0::int, 3, 5])" by simp_all
  have h3: "\<forall>t \<in> set [0::int, 3, 5]. \<forall>u \<in> set [0, 3, 5]. t - u < 10" by simp
  have run: "Allow_seq (NewRateLimiter 2 10) (map (\<lambda>t. (t, ''u'')) [0, 3, 5]) =
     Inr ([(True, 0), (True, 0), (False, 5)], \<lparr>limit = 2, window = 10, requests = [''u'' \<mapsto> [0, 3]]\<rparr>)"
    by (simp add: Allow_def NewRateLimiter_def Let_def time_Add_def time_Sub_def time_After_def
          Duration_neg_def minDuration_def maxDuration_def)
  from Allow_concurrent_within_window[OF h1 h2 h3, of "''u''"] run
  show ?thesis by simp
qed

text \<open>
  The claim as it is worded fails: with a window of zero every instant has expired by the
  next call, so two calls at one clock reading are both admitted under limit 1; and with
  a window of 10 so are two calls whose clock readings are 10 apart.
\<close>

theorem Allow_concurrent_counterexample:
  "Allow_seq (NewRateLimiter 1 0) [(0, ''u''), (0, ''u'')] =
     Inr ([(True, 0), (True, 0)], \<lparr>limit = 1, window = 0, requests = [''u'' \<mapsto> [0]]\<rparr>) \<and>
   Allow_seq (NewRateLimiter 1 10) [(0, ''u''), (10, ''u'')] =
     Inr ([(True, 0), (True, 0)], \<lparr>limit = 1, window = 10, requests = [''u'' \<mapsto> [10]]\<rparr>)"
  by (simp add: Allow_def NewRateLimiter_def Let_def time_Add_def time_Sub_def time_After_def
          Duration_neg_def minDuration_def maxDuration_def)

section \<open>The completion client: what \<open>call\<close> and \<open>Complete\<close> do\<close>

text \<open>Every invocation of \<open>call\<close> adds one event to the trace, whatever its outcome.\<close>

lemma call_trace: "snd (call E c trace messages tools) = trace @ [CallEvent messages tools]"
  by (simp add: call_def Let_def split: option.splits http_outcome.splits)

lemma call_eq:
  "call E c trace messages tools = (fst (call E c trace messages tools), trace @ [CallEvent messages tools])"
  by (metis call_trace prod.collapse)

lemma first_call:
  "fst (call E c [] messages tools) = r \<Longrightarrow> call E c [] messages tools = (r, [CallEvent messages tools])"
  using call_eq[of E c "[]" messages tools] by simp

text \<open>The paths through \<open>Complete\<close>, one lemma each, by what the first call returns.\<close>

lemma Complete_first_call_fails:
  assumes "fst (call E c [] messages tools) = Inl err"
  shows "Complete E c messages tools searchFn = (Inl err, [CallEvent messages tools])"
  by (simp add: Complete_def first_call[OF assms])

lemma Complete_no_choice:
  assumes "fst (call E c [] messages tools) = Inr resp" and "Choices resp = []"
  shows "Complete E c messages tools searchFn = (Inl EmptyResponse, [CallEvent messages tools])"
  using assms(2) by (simp add: Complete_def first_call[OF assms(1)])

lemma Complete_no_round:
  assumes "fst (call E c [] messages tools) = Inr resp" and "Choices resp = msg # rest"
    and "ToolCalls msg = [] \<or> Name (Function (hd (ToolCalls msg))) \<noteq> ''search_internet'' \<or> searchFn = None"
  shows "Complete E c messages tools searchFn =
     (Inr \<lparr>Reply = Content msg, WebSearchUsed = False, WebSearchError = None, WebSearchQuery = ''''\<rparr>,
      [CallEvent messages tools])"
  using assms(2,3)
  by (auto simp: Complete_def first_call[OF assms(1)] Let_def split: list.splits option.splits)

lemma Complete_bad_arguments:
  assumes "fst (call E c [] messages tools) = Inr resp" and "Choices resp = msg # rest"
    and "ToolCalls msg = tc # tcs" and "Name (Function tc) = ''search_internet''"
    and "json_Unmarshal_SearchArgs E (Arguments (Function tc)) = None"
  shows "Complete E c messages tools (Some f) = (Inl InvalidToolArguments, [CallEvent messages tools])"
  using assms(2-5) by (simp add: Complete_def first_call[OF assms(1)] tool_round_def)

lemma Complete_round:
  assumes "fst (call E c [] messages tools) = Inr resp" and "Choices resp = msg # rest"
    and "ToolCalls msg = tc # tcs" and "Name (Function tc) = ''search_internet''"
    and "json_Unmarshal_SearchArgs E (Arguments (Function tc)) = Some args"
    and "f (Query args) = (searchResult, err)"
  shows "Complete E c messages tools (Some f) =
     ((case fst (call E c [CallEvent messages tools, SearchEvent (Query args)]
                   (messages @ appended msg tc searchResult) []) of
         Inl e \<Rightarrow> Inl e
       | Inr resp2 \<Rightarrow>
           (case Choices resp2 of
              [] \<Rightarrow> Inl EmptyResponseSecondCall
            | msg2 # _ \<Rightarrow>
                Inr \<lparr>Reply = Content msg2, WebSearchUsed = True, WebSearchError = err,
                     WebSearchQuery = Query args\<rparr>)),
      [CallEvent messages tools, SearchEvent (Query args),
       CallEvent (messages @ appended msg tc searchResult) []])"
proof -
  let ?m2 = "messages @ appended msg tc searchResult"
  let ?t2 = "[CallEvent messages tools, SearchEvent (Query args)]"
  obtain r2 where r2: "fst (call E c ?t2 ?m2 []) = r2" by simp
  with call_eq[of E c ?t2 ?m2 "[]"] have c2: "call E c ?t2 ?m2 [] = (r2, ?t2 @ [CallEvent ?m2 []])"
    by simp
  show ?thesis
    unfolding r2
    using assms(2-6) c2
    by (simp add: Complete_def tool_round_def Let_def first_call[OF assms(1)] appended_def
          split: sum.splits list.splits)
qed

text \<open>
  Claim C2. The first response proposes the registered tool, a search function is given
  and the arguments decode. Then \<open>Complete\<close> invokes \<open>call\<close> exactly twice, with one
  invocation of the search function in between. The second invocation gets the original
  messages followed by exactly two more: an assistant message with the tool calls of the
  first response as they came, and a tool message with the text the search function
  returned (with or without an error) and the id of the first tool call. It gets no
  tools. What \<open>Complete\<close> returns is decided by the second response: an error of the call
  or an empty choice list is returned as the error, and otherwise the result has the
  content of the second response as its reply, \<open>WebSearchUsed\<close> true and
  \<open>WebSearchQuery\<close> equal to the decoded query.
\<close>

theorem Complete_two_phase:
  assumes "fst (call E c [] messages tools) = Inr resp" and "Choices resp = msg # rest"
    and "ToolCalls msg = tc # tcs" and "Name (Function tc) = ''search_internet''"
    and "searchFn = Some f"
    and "json_Unmarshal_SearchArgs E (Arguments (Function tc)) = Some args"
    and "f (Query args) = (searchResult, err)"
  shows "Complete E c messages tools searchFn =
     ((case fst (call E c [CallEvent messages tools, SearchEvent (Query args)]
                   (messages @
                    [\<lparr>Role = ''assistant'', Content = '''', ToolCalls = ToolCalls msg, ToolCallID = ''''\<rparr>,
                     \<lparr>Role = ''tool'', Content = searchResult, ToolCalls = [], ToolCallID = ID tc\<rparr>]) []) of
         Inl e \<Rightarrow> Inl e
       | Inr resp2 \<Rightarrow>
           (case Choices resp2 of
              [] \<Rightarrow> Inl EmptyResponseSecondCall
            | msg2 # _ \<Rightarrow>
                Inr \<lparr>Reply = Content msg2, WebSearchUsed = True, WebSearchError = err,
                     WebSearchQuery = Query args\<rparr>)),
      [CallEvent messages tools, SearchEvent (Query args),
       CallEvent (messages @
                    [\<lparr>Role = ''assistant'', Content = '''', ToolCalls = ToolCalls msg, ToolCallID = ''''\<rparr>,
                     \<lparr>Role = ''tool'', Content = searchResult, ToolCalls = [], ToolCallID = ID tc\<rparr>]) []])"
  using Complete_round[of E c messages tools resp msg rest tc tcs args f searchResult err] assms
  by (simp add: appended_def)

theorem Complete_two_phase_witness:
  "Complete
     (scripted (Response 200 ''first'') (Response 200 ''second'')
        [(''first'', proposal [proposed_call ''call_1'' ''search_internet'' query_x]),
         (''second'', answer ''voici'')]
        [(query_x, \<lparr>Query = ''x''\<rparr>)])
     example_client example_history example_tools (Some (\<lambda>q. (''result'', None))) =
   (Inr \<lparr>Reply = ''voici'', WebSearchUsed = True, WebSearchError = None, WebSearchQuery = ''x''\<rparr>,
    [CallEvent example_history example_tools, SearchEvent ''x'',
     CallEvent (example_history @
        [\<lparr>Role = ''assistant'', Content = '''',
          ToolCalls = [proposed_call ''call_1'' ''search_internet'' query_x], ToolCallID = ''''\<rparr>,
         \<lparr>Role = ''tool'', Content = ''result'', ToolCalls = [], ToolCallID = ''call_1''\<rparr>]) []])"
proof -
  let ?E = "scripted (Response 200 ''first'') (Response 200 ''second'')
        [(''first'', proposal [proposed_call ''call_1'' ''search_internet'' query_x]),
         (''second'', answer ''voici'')]
        [(query_x, \<lparr>Query = ''x''\<rparr>)]"
  let ?tc = "proposed_call ''call_1'' ''search_internet'' query_x"
  let ?msg = "\<lparr>Role = ''assistant'', Content = ''je cherche'', ToolCalls = [?tc], ToolCallID = ''''\<rparr>"
  have h1: "fst (call ?E example_client [] example_history example_tools) = Inr (proposal [?tc])"
    by (simp add: scripted_def call_def Let_def)
  have h2: "Choices (proposal [?tc]) = ?msg # []" by (simp add: proposal_def)
  have h3: "ToolCalls ?msg = ?tc # []" by simp
  have h4: "Name (Function ?tc) = ''search_internet''" by (simp add: proposed_call_def)
  have h6: "json_Unmarshal_SearchArgs ?E (Arguments (Function ?tc)) = Some \<lparr>Query = ''x''\<rparr>"
    by (simp add: scripted_def proposed_call_def)
  have h7: "(\<lambda>q::string. (''result'', None::go_error option)) (Query \<lparr>Query = ''x''\<rparr>) = (''result'', None)"
    by simp
  from Complete_two_phase[where f = "\<lambda>q. (''result'', None)", OF h1 h2 h3 h4 refl h6 h7]
  show ?thesis
    by (simp add: scripted_def call_def Let_def answer_def proposed_call_def)
qed

text \<open>
  Claim C4. When the first response proposes no tool call, or its first tool call does
  not name \<open>search_internet\<close>, or no search function is given, \<open>Complete\<close> invokes
  \<open>call\<close> once and the search function never, and returns without error the content of
  the first response as the reply.
\<close>

theorem Complete_single_call:
  assumes "fst (call E c [] messages tools) = Inr resp" and "Choices resp = msg # rest"
    and "ToolCalls msg = [] \<or> Name (Function (hd (ToolCalls msg))) \<noteq> ''search_internet'' \<or> searchFn = None"
  shows "Complete E c messages tools searchFn =
     (Inr \<lparr>Reply = Content msg, WebSearchUsed = False, WebSearchError = None, WebSearchQuery = ''''\<rparr>,
      [CallEvent messages tools])"
  using assms by (rule Complete_no_round)

theorem Complete_single_call_witness:
  "Complete (scripted (Response 200 ''first'') NetworkFailure [(''first'', answer ''bonjour'')] [])
     example_client example_history example_tools (Some (\<lambda>q. (''result'', None))) =
     (Inr \<lparr>Reply = ''bonjour'', WebSearchUsed = False, WebSearchError = None, WebSearchQuery = ''''\<rparr>,
      [CallEvent example_history example_tools]) \<and>
   Complete
     (scripted (Response 200 ''first'') NetworkFailure
        [(''first'', proposal [proposed_call ''call_1'' ''get_weather'' query_x])] [])
     example_client example_history example_tools (Some (\<lambda>q. (''result'', None))) =
     (Inr \<lparr>Reply = ''je cherche'', WebSearchUsed = False, WebSearchError = None, WebSearchQuery = ''''\<rparr>,
      [CallEvent example_history example_tools]) \<and>
   Complete
     (scripted (Response 200 ''first'') NetworkFailure
        [(''first'', proposal [proposed_call ''call_1'' ''search_internet'' query_x])] [])
     example_client example_history example_tools None =
     (Inr \<lparr>Reply = ''je cherche'', WebSearchUsed = False, WebSearchError = None, WebSearchQuery = ''''\<rparr>,
      [CallEvent example_history example_tools])"
proof -
  let ?f = "Some (\<lambda>q::string. (''result'', None::go_error option))"
  let ?E1 = "scripted (Response 200 ''first'') NetworkFailure [(''first'', answer ''bonjour'')] []"
  let ?E2 = "scripted (Response 200 ''first'') NetworkFailure
        [(''first'', proposal [proposed_call ''call_1'' ''get_weather'' query_x])] []"
  let ?E3 = "scripted (Response 200 ''first'') NetworkFailure
        [(''first'', proposal [proposed_call ''call_1'' ''search_internet'' query_x])] []"
  have a: "fst (call ?E1 example_client [] example_history example_tools) = Inr (answer ''bonjour'')"
    by (simp add: scripted_def call_def Let_def)
  have b: "fst (call ?E2 example_client [] example_history example_tools) =
      Inr (proposal [proposed_call ''call_1'' ''get_weather'' query_x])"
    by (simp add: scripted_def call_def Let_def)
  have c: "fst (call ?E3 example_client [] example_history example_tools) =
      Inr (proposal [proposed_call ''call_1'' ''search_internet'' query_x])"
    by (simp add: scripted_def call_def Let_def)
  from Complete_single_call[OF a, of _ "[]" ?f]
  have 1: "Complete ?E1 example_client example_history example_tools ?f =
     (Inr \<lparr>Reply = ''bonjour'', WebSearchUsed = False, WebSearchError = None, WebSearchQuery = ''''\<rparr>,
      [CallEvent example_history example_tools])"
    by (simp add: answer_def)
  from Complete_single_call[OF b, of _ "[]" ?f]
  have 2: "Complete ?E2 example_client example_history example_tools ?f =
     (Inr \<lparr>Reply = ''je cherche'', WebSearchUsed = False, WebSearchError = None, WebSearchQuery = ''''\<rparr>,
      [CallEvent example_history example_tools])"
    by (simp add: proposal_def proposed_call_def)
  from Complete_single_call[OF c, of _ "[]" None]
  have 3: "Complete ?E3 example_client example_history example_tools None =
     (Inr \<lparr>Reply = ''je cherche'', WebSearchUsed = False, WebSearchError = None, WebSearchQuery = ''''\<rparr>,
      [CallEvent example_history example_tools])"
    by (simp add: proposal_def proposed_call_def)
  from 1 2 3 show ?thesis by simp
qed

text \<open>
  Claim C5. The arguments are decoded when a search function is given and the first tool
  call names \<open>search_internet\<close>. When decoding then fails, \<open>Complete\<close> returns an error
  and no result; the trace holds the first call only, so the search function was not
  invoked and no second call was made.
\<close>

theorem Complete_decode_failure_aborts:
  assumes "fst (call E c [] messages tools) = Inr resp" and "Choices resp = msg # rest"
    and "ToolCalls msg = tc # tcs" and "Name (Function tc) = ''search_internet''"
    and "searchFn = Some f"
    and "json_Unmarshal_SearchArgs E (Arguments (Function tc)) = None"
  shows "Complete E c messages tools searchFn = (Inl InvalidToolArguments, [CallEvent messages tools])"
  using Complete_bad_arguments[OF assms(1-4) assms(6)] assms(5) by simp

theorem Complete_decode_failure_aborts_witness:
  "Complete
     (scripted (Response 200 ''first'') (Response 200 ''second'')
        [(''first'', proposal [proposed_call ''call_1'' ''search_internet'' ''not-json'']),
         (''second'', answer ''voici'')]
        [(query_x, \<lparr>Query = ''x''\<rparr>)])
     example_client example_history example_tools (Some (\<lambda>q. (''result'', None))) =
   (Inl InvalidToolArguments, [CallEvent example_history example_tools])"
proof -
  let ?E = "scripted (Response 200 ''first'') (Response 200 ''second'')
        [(''first'', proposal [proposed_call ''call_1'' ''search_internet'' ''not-json'']),
         (''second'', answer ''voici'')]
        [(query_x, \<lparr>Query = ''x''\<rparr>)]"
  let ?tc = "proposed_call ''call_1'' ''search_internet'' ''not-json''"
  let ?msg = "\<lparr>Role = ''assistant'', Content = ''je cherche'', ToolCalls = [?tc], ToolCallID = ''''\<rparr>"
  have h1: "fst (call ?E example_client [] example_history example_tools) = Inr (proposal [?tc])"
    by (simp add: scripted_def call_def Let_def)
  have h2: "Choices (proposal [?tc]) = ?msg # []" by (simp add: proposal_def)
  have h3: "ToolCalls ?msg = ?tc # []" by simp
  have h4: "Name (Function ?tc) = ''search_internet''" by (simp add: proposed_call_def)
  have h6: "json_Unmarshal_SearchArgs ?E (Arguments (Function ?tc)) = None"
    by (simp add: scripted_def proposed_call_def query_x_def)
  from Complete_decode_failure_aborts[OF h1 h2 h3 h4 refl h6]
  show ?thesis .
qed

text \<open>
  Claim C3, as the code has it. The search function is invoked and returns an error with
  its fallback text. Then \<open>Complete\<close> still makes the second call, with the fallback text
  in the tool message. When that call returns a response with at least one choice,
  \<open>Complete\<close> returns a result, with \<open>WebSearchUsed\<close> true and the error in
  \<open>WebSearchError\<close>. Whether \<open>Complete\<close> returns an error is the same as for a search
  function that returns the same text and no error.
\<close>

theorem Complete_executor_error_degrades:
  assumes "fst (call E c [] messages tools) = Inr resp" and "Choices resp = msg # rest"
    and "ToolCalls msg = tc # tcs" and "Name (Function tc) = ''search_internet''"
    and "json_Unmarshal_SearchArgs E (Arguments (Function tc)) = Some args"
    and "f (Query args) = (fallback, Some e)"
  shows "snd (Complete E c messages tools (Some f)) =
           [CallEvent messages tools, SearchEvent (Query args),
            CallEvent (messages @
              [\<lparr>Role = ''assistant'', Content = '''', ToolCalls = ToolCalls msg, ToolCallID = ''''\<rparr>,
               \<lparr>Role = ''tool'', Content = fallback, ToolCalls = [], ToolCallID = ID tc\<rparr>]) []] \<and>
         (fst (call E c [CallEvent messages tools, SearchEvent (Query args)]
                 (messages @
                   [\<lparr>Role = ''assistant'', Content = '''', ToolCalls = ToolCalls msg, ToolCallID = ''''\<rparr>,
                    \<lparr>Role = ''tool'', Content = fallback, ToolCalls = [], ToolCallID = ID tc\<rparr>]) []) = Inr resp2 \<and>
          Choices resp2 = msg2 # rest2 \<longrightarrow>
            fst (Complete E c messages tools (Some f)) =
              Inr \<lparr>Reply = Content msg2, WebSearchUsed = True, WebSearchError = Some e,
                   WebSearchQuery = Query args\<rparr>) \<and>
         isl (fst (Complete E c messages tools (Some f))) =
           isl (fst (Complete E c messages tools (Some (\<lambda>q. (fst (f q), None)))))"
proof -
  have g: "(\<lambda>q. (fst (f q), None :: go_error option)) (Query args) = (fallback, None)"
    using assms(6) by simp
  note with_error = Complete_round[of E c messages tools resp msg rest tc tcs args f fallback "Some e",
      OF assms(1-6)]
  note without = Complete_round[of E c messages tools resp msg rest tc tcs args
      "\<lambda>q. (fst (f q), None)" fallback None, OF assms(1-5) g]
  show ?thesis
    unfolding with_error without
    by (simp add: appended_def split: sum.splits list.splits)
qed

theorem Complete_executor_error_degrades_witness:
  "Complete
     (scripted (Response 200 ''first'') (Response 200 ''second'')
        [(''first'', proposal [proposed_call ''call_1'' ''search_internet'' query_x]),
         (''second'', answer ''voici'')]
        [(query_x, \<lparr>Query = ''x''\<rparr>)])
     example_client example_history example_tools (Some (\<lambda>q. (''fallback text'', Some ''HTTP 500''))) =
   (Inr \<lparr>Reply = ''voici'', WebSearchUsed = True, WebSearchError = Some ''HTTP 500'', WebSearchQuery = ''x''\<rparr>,
    [CallEvent example_history example_tools, SearchEvent ''x'',
     CallEvent (example_history @
        [\<lparr>Role = ''assistant'', Content = '''',
          ToolCalls = [proposed_call ''call_1'' ''search_internet'' query_x], ToolCallID = ''''\<rparr>,
         \<lparr>Role = ''tool'', Content = ''fallback text'', ToolCalls = [], ToolCallID = ''call_1''\<rparr>]) []])"
proof -
  let ?E = "scripted (Response 200 ''first'') (Response 200 ''second'')
        [(''first'', proposal [proposed_call ''call_1'' ''search_internet'' query_x]),
         (''second'', answer ''voici'')]
        [(query_x, \<lparr>Query = ''x''\<rparr>)]"
  let ?f = "\<lambda>q::string. (''fallback text'', Some ''HTTP 500'')"
  let ?tc = "proposed_call ''call_1'' ''search_internet'' query_x"
  let ?msg = "\<lparr>Role = ''assistant'', Content = ''je cherche'', ToolCalls = [?tc], ToolCallID = ''''\<rparr>"
  let ?msg2 = "\<lparr>Role = ''assistant'', Content = ''voici'', ToolCalls = [], ToolCallID = ''''\<rparr>"
  have h1: "fst (call ?E example_client [] example_history example_tools) = Inr (proposal [?tc])"
    by (simp add: scripted_def call_def Let_def)
  have h2: "Choices (proposal [?tc]) = ?msg # []" by (simp add: proposal_def)
  have h3: "ToolCalls ?msg = ?tc # []" by simp
  have h4: "Name (Function ?tc) = ''search_internet''" by (simp add: proposed_call_def)
  have h5: "json_Unmarshal_SearchArgs ?E (Arguments (Function ?tc)) = Some \<lparr>Query = ''x''\<rparr>"
    by (simp add: scripted_def proposed_call_def)
  have h6: "?f (Query \<lparr>Query = ''x''\<rparr>) = (''fallback text'', Some ''HTTP 500'')"
    by simp
  have second: "fst (call ?E example_client [CallEvent example_history example_tools, SearchEvent ''x'']
        (example_history @
          [\<lparr>Role = ''assistant'', Content = '''', ToolCalls = ToolCalls ?msg, ToolCallID = ''''\<rparr>,
           \<lparr>Role = ''tool'', Content = ''fallback text'', ToolCalls = [], ToolCallID = ID ?tc\<rparr>]) []) =
      Inr (answer ''voici'')"
    by (simp add: scripted_def call_def Let_def)
  have ch: "Choices (answer ''voici'') = ?msg2 # []" by (simp add: answer_def)
  from Complete_executor_error_degrades[where f = ?f and ?resp2.0 = "answer ''voici''"
      and ?msg2.0 = ?msg2 and ?rest2.0 = "[]", OF h1 h2 h3 h4 h5 h6] second ch
  have "snd (Complete ?E example_client example_history example_tools (Some ?f)) =
           [CallEvent example_history example_tools, SearchEvent ''x'',
            CallEvent (example_history @
              [\<lparr>Role = ''assistant'', Content = '''', ToolCalls = [?tc], ToolCallID = ''''\<rparr>,
               \<lparr>Role = ''tool'', Content = ''fallback text'', ToolCalls = [], ToolCallID = ''call_1''\<rparr>]) []]"
    and "fst (Complete ?E example_client example_history example_tools (Some ?f)) =
           Inr \<lparr>Reply = ''voici'', WebSearchUsed = True, WebSearchError = Some ''HTTP 500'', WebSearchQuery = ''x''\<rparr>"
    by (simp_all add: proposed_call_def)
  then show ?thesis by (simp add: prod_eq_iff)
qed

text \<open>
  The claim as it is worded fails: the search function returns an error with its fallback
  text, the service answers the second request with status 500, and \<open>Complete\<close> returns
  that error and no result.
\<close>

theorem Complete_executor_error_counterexample:
  "Complete
     (scripted (Response 200 ''first'') (Response 500 ''down'')
        [(''first'', proposal [proposed_call ''call_1'' ''search_internet'' query_x])]
        [(query_x, \<lparr>Query = ''x''\<rparr>)])
     example_client example_history example_tools (Some (\<lambda>q. (''fallback text'', Some ''HTTP 500''))) =
   (Inl (ApiError \<lparr>StatusCode = 500, Body = ''down''\<rparr>),
    [CallEvent example_history example_tools, SearchEvent ''x'',
     CallEvent (example_history @
        [\<lparr>Role = ''assistant'', Content = '''',
          ToolCalls = [proposed_call ''call_1'' ''search_internet'' query_x], ToolCallID = ''''\<rparr>,
         \<lparr>Role = ''tool'', Content = ''fallback text'', ToolCalls = [], ToolCallID = ''call_1''\<rparr>]) []])"
  by (simp add: scripted_def call_def Complete_def tool_round_def Let_def proposal_def proposed_call_def)

text \<open>
  Claim C6. In every run the search function is invoked at most once and \<open>call\<close> at most
  twice. When the first response proposes tool calls, only the first of them is looked
  at: if the search function is invoked at all, then the first call names
  \<open>search_internet\<close>, the query is the one decoded from its arguments and the tool
  message carries its id; the other proposed calls appear only in the assistant message
  that repeats the proposal.
\<close>

theorem Complete_at_most_one_invocation:
  "length (searches (snd (Complete E c messages tools searchFn))) \<le> 1 \<and>
   length (transport_calls (snd (Complete E c messages tools searchFn))) \<le> 2 \<and>
   (fst (call E c [] messages tools) = Inr resp \<and> Choices resp = msg # rest \<and>
    ToolCalls msg = tc # tcs \<longrightarrow>
      searches (snd (Complete E c messages tools searchFn)) = [] \<or>
      (\<exists>f args. searchFn = Some f \<and> Name (Function tc) = ''search_internet'' \<and>
         json_Unmarshal_SearchArgs E (Arguments (Function tc)) = Some args \<and>
         snd (Complete E c messages tools searchFn) =
           [CallEvent messages tools, SearchEvent (Query args),
            CallEvent (messages @
              [\<lparr>Role = ''assistant'', Content = '''', ToolCalls = tc # tcs, ToolCallID = ''''\<rparr>,
               \<lparr>Role = ''tool'', Content = fst (f (Query args)), ToolCalls = [], ToolCallID = ID tc\<rparr>]) []]))"
proof (cases "fst (call E c [] messages tools)")
  case (Inl err)
  from Complete_first_call_fails[OF Inl] Inl show ?thesis by simp
next
  case (Inr resp1)
  show ?thesis
  proof (cases "Choices resp1")
    case Nil
    from Complete_no_choice[OF Inr Nil] Inr Nil show ?thesis by auto
  next
    case (Cons msg1 rest1)
    show ?thesis
    proof (cases "ToolCalls msg1 = [] \<or>
        Name (Function (hd (ToolCalls msg1))) \<noteq> ''search_internet'' \<or> searchFn = None")
      case True
      from Complete_no_round[OF Inr Cons True] show ?thesis by simp
    next
      case False
      then obtain tc1 tcs1 f where
        tcs: "ToolCalls msg1 = tc1 # tcs1" and name: "Name (Function tc1) = ''search_internet''"
        and f: "searchFn = Some f"
        by (cases "ToolCalls msg1") auto
      show ?thesis
      proof (cases "json_Unmarshal_SearchArgs E (Arguments (Function tc1))")
        case None
        from Complete_bad_arguments[OF Inr Cons tcs name None] f show ?thesis by simp
      next
        case (Some args)
        obtain sr se where fq: "f (Query args) = (sr, se)" by (cases "f (Query args)")
        from Complete_round[of E c messages tools resp1 msg1 rest1 tc1 tcs1 args f sr se,
            OF Inr Cons tcs name Some fq]
        have tr: "snd (Complete E c messages tools searchFn) =
            [CallEvent messages tools, SearchEvent (Query args),
             CallEvent (messages @ appended msg1 tc1 sr) []]"
          using f by simp
        have "resp = resp1 \<and> msg = msg1 \<and> tc = tc1 \<and> tcs = tcs1"
          if "fst (call E c [] messages tools) = Inr resp \<and> Choices resp = msg # rest \<and>
              ToolCalls msg = tc # tcs"
          using that Inr Cons tcs by simp
        with tr f name Some fq tcs show ?thesis
          by (auto simp: appended_def)
      qed
    qed
  qed
qed

theorem Complete_at_most_one_invocation_witness:
  "searches (snd (Complete
     (scripted (Response 200 ''first'') (Response 200 ''second'')
        [(''first'', proposal [proposed_call ''call_1'' ''search_internet'' query_x,
                               proposed_call ''call_2'' ''search_internet'' query_y]),
         (''second'', answer ''voici'')]
        [(query_x, \<lparr>Query = ''x''\<rparr>), (query_y, \<lparr>Query = ''y''\<rparr>)])
     example_client example_history example_tools (Some (\<lambda>q. (q @ '' found'', None))))) = [''x''] \<and>
   snd (Complete
     (scripted (Response 200 ''first'') (Response 200 ''second'')
        [(''first'', proposal [proposed_call ''call_1'' ''search_internet'' query_x,
                               proposed_call ''call_2'' ''search_internet'' query_y]),
         (''second'', answer ''voici'')]
        [(query_x, \<lparr>Query = ''x''\<rparr>), (query_y, \<lparr>Query = ''y''\<rparr>)])
     example_client example_history example_tools (Some (\<lambda>q. (q @ '' found'', None)))) =
     [CallEvent example_history example_tools, SearchEvent ''x'',
      CallEvent (example_history @
        [\<lparr>Role = ''assistant'', Content = '''',
          ToolCalls = [proposed_call ''call_1'' ''search_internet'' query_x,
                       proposed_call ''call_2'' ''search_internet'' query_y], ToolCallID = ''''\<rparr>,
         \<lparr>Role = ''tool'', Content = ''x found'', ToolCalls = [], ToolCallID = ''call_1''\<rparr>]) []]"
proof -
  let ?E = "scripted (Response 200 ''first'') (Response 200 ''second'')
        [(''first'', proposal [proposed_call ''call_1'' ''search_internet'' query_x,
                               proposed_call ''call_2'' ''search_internet'' query_y]),
         (''second'', answer ''voici'')]
        [(query_x, \<lparr>Query = ''x''\<rparr>), (query_y, \<lparr>Query = ''y''\<rparr>)]"
  let ?f = "\<lambda>q::string. (q @ '' found'', None :: go_error option)"
  let ?tc = "proposed_call ''call_1'' ''search_internet'' query_x"
  let ?tcs = "[proposed_call ''call_2'' ''search_internet'' query_y]"
  let ?msg = "\<lparr>Role = ''assistant'', Content = ''je cherche'', ToolCalls = ?tc # ?tcs, ToolCallID = ''''\<rparr>"
  have h: "fst (call ?E example_client [] example_history example_tools) = Inr (proposal (?tc # ?tcs)) \<and>
      Choices (proposal (?tc # ?tcs)) = ?msg # [] \<and> ToolCalls ?msg = ?tc # ?tcs"
    by (simp add: scripted_def call_def Let_def proposal_def)
  have run: "snd (Complete ?E example_client example_history example_tools (Some ?f)) =
     [CallEvent example_history example_tools, SearchEvent ''x'',
      CallEvent (example_history @
        [\<lparr>Role = ''assistant'', Content = '''', ToolCalls = ?tc # ?tcs, ToolCallID = ''''\<rparr>,
         \<lparr>Role = ''tool'', Content = ''x found'', ToolCalls = [], ToolCallID = ''call_1''\<rparr>]) []]"
    by (simp add: scripted_def call_def Complete_def tool_round_def Let_def proposal_def
          proposed_call_def answer_def)
  from Complete_at_most_one_invocation[of ?E example_client example_history example_tools "Some ?f"
      "proposal (?tc # ?tcs)" ?msg "[]" ?tc ?tcs] h run
  show ?thesis by simp
qed

lemma UserMessage_range:
  "UserMessage e \<in> set [message_400, message_401, message_402, message_422, message_429,
     message_500, message_503, message_unknown]"
  by (simp add: UserMessage_def)

lemma messages_distinct:
  "distinct [message_400, message_401, message_402, message_422, message_429,
     message_500, message_503, message_unknown]"
  by (simp add: message_400_def message_401_def message_402_def message_422_def message_429_def
        message_500_def message_503_def message_unknown_def)

text \<open>
  Claim C7. When the service answers a request with a status other than 200, \<open>call\<close>
  returns an \<open>APIError\<close> with that status and the body as received, and \<open>Complete\<close>
  returns it unchanged. \<open>UserMessage\<close> gives every error one of its eight messages, by
  the status code alone; a code that is none of the seven of the switch gets the last
  message. The eight messages differ from each other, so the message for 429 is not the
  message for 500.
\<close>

theorem non_200_is_APIError:
  "(json_Marshal E \<lparr>Model = model c, Messages = messages, Tools = tools, Temperature = 0.2\<rparr> = Some body \<and>
    http_Do E trace
      \<lparr>url = baseURL c, content_type = ''application/json'',
       authorization = ''Bearer '' @ apiKey c, payload = body\<rparr> = Response status respBody \<and>
    status \<noteq> 200 \<longrightarrow>
      call E c trace messages tools =
        (Inl (ApiError \<lparr>StatusCode = status, Body = respBody\<rparr>), trace @ [CallEvent messages tools]) \<and>
      (trace = [] \<longrightarrow>
         Complete E c messages tools searchFn =
           (Inl (ApiError \<lparr>StatusCode = status, Body = respBody\<rparr>), [CallEvent messages tools]))) \<and>
   UserMessage e \<in> set [message_400, message_401, message_402, message_422, message_429,
     message_500, message_503, message_unknown] \<and>
   (StatusCode e \<notin> {400, 401, 402, 422, 429, 500, 503} \<longrightarrow> UserMessage e = message_unknown) \<and>
   UserMessage e = UserMessage \<lparr>StatusCode = StatusCode e, Body = b\<rparr> \<and>
   UserMessage \<lparr>StatusCode = 429, Body = b\<rparr> = message_429 \<and>
   UserMessage \<lparr>StatusCode = 500, Body = b\<rparr> = message_500 \<and>
   message_429 \<noteq> message_500 \<and>
   distinct [message_400, message_401, message_402, message_422, message_429,
     message_500, message_503, message_unknown]"
proof (intro conjI impI)
  assume h: "json_Marshal E \<lparr>Model = model c, Messages = messages, Tools = tools, Temperature = 0.2\<rparr> = Some body \<and>
    http_Do E trace
      \<lparr>url = baseURL c, content_type = ''application/json'',
       authorization = ''Bearer '' @ apiKey c, payload = body\<rparr> = Response status respBody \<and>
    status \<noteq> 200"
  then show c: "call E c trace messages tools =
        (Inl (ApiError \<lparr>StatusCode = status, Body = respBody\<rparr>), trace @ [CallEvent messages tools])"
    by (simp add: call_def Let_def)
  assume "trace = []"
  with c have "fst (call E c [] messages tools) = Inl (ApiError \<lparr>StatusCode = status, Body = respBody\<rparr>)"
    by simp
  then show "Complete E c messages tools searchFn =
           (Inl (ApiError \<lparr>StatusCode = status, Body = respBody\<rparr>), [CallEvent messages tools])"
    by (rule Complete_first_call_fails)
next
  show "UserMessage e \<in> set [message_400, message_401, message_402, message_422, message_429,
     message_500, message_503, message_unknown]"
    by (rule UserMessage_range)
next
  assume "StatusCode e \<notin> {400, 401, 402, 422, 429, 500, 503}"
  then show "UserMessage e = message_unknown" by (simp add: UserMessage_def)
next
  show "UserMessage e = UserMessage \<lparr>StatusCode = StatusCode e, Body = b\<rparr>"
    by (simp add: UserMessage_def)
next
  show "UserMessage \<lparr>StatusCode = 429, Body = b\<rparr> = message_429" by (simp add: UserMessage_def)
next
  show "UserMessage \<lparr>StatusCode = 500, Body = b\<rparr> = message_500" by (simp add: UserMessage_def)
next
  show "message_429 \<noteq> message_500" by (simp add: message_429_def message_500_def)
next
  show "distinct [message_400, message_401, message_402, message_422, message_429,
     message_500, message_503, message_unknown]"
    by (rule messages_distinct)
qed

theorem non_200_is_APIError_witness:
  "call (scripted (Response 429 ''slow down'') NetworkFailure [] []) example_client []
     example_history example_tools =
     (Inl (ApiError \<lparr>StatusCode = 429, Body = ''slow down''\<rparr>), [CallEvent example_history example_tools]) \<and>
   Complete (scripted (Response 429 ''slow down'') NetworkFailure [] []) example_client
     example_history example_tools None =
     (Inl (ApiError \<lparr>StatusCode = 429, Body = ''slow down''\<rparr>), [CallEvent example_history example_tools]) \<and>
   UserMessage \<lparr>StatusCode = 418, Body = ''teapot''\<rparr> = message_unknown \<and>
   UserMessage \<lparr>StatusCode = 429, Body = ''slow down''\<rparr> \<noteq> UserMessage \<lparr>StatusCode = 500, Body = ''slow down''\<rparr>"
  using non_200_is_APIError[of "scripted (Response 429 ''slow down'') NetworkFailure [] []"
      example_client example_history example_tools "''deepseek-chat''" "[]" 429 "''slow down''" None
      "\<lparr>StatusCode = 418, Body = ''teapot''\<rparr>" "''slow down''"]
  by (simp add: scripted_def example_client_def)

subsection \<open>Arguments without a query\<close>

text \<open>The decoder on some texts.\<close>

lemmas json_defs = Unmarshal_SearchArgs_def json_parse_def is_space_def is_digit_def byte_def
  scan_step_def begin_value_def end_value_def maxNestingDepth_def number_end_def digits_def
  store_member_def names_Query_def fold_byte_def getu4_def hex_digit_def utf8_len_def is_cont_def unescape_def
  utf8_encode_def replacement_def

lemma Unmarshal_empty_object: "Unmarshal_SearchArgs ''{}'' = Some \<lparr>Query = ''''\<rparr>"
  by (simp add: json_defs)

lemma Unmarshal_query_x: "Unmarshal_SearchArgs query_x = Some \<lparr>Query = ''x''\<rparr>"
  by (simp add: json_defs query_x_def)

lemma Unmarshal_not_json: "Unmarshal_SearchArgs ''not-json'' = None"
  by (simp add: json_defs)

lemma parse_query_number: "json_parse query_number = Some (JObject [(''query'', JNumber ''1'')])"
  by (simp add: json_defs query_number_def)

lemma Unmarshal_query_number: "Unmarshal_SearchArgs query_number = None"
  by (simp add: Unmarshal_SearchArgs_def parse_query_number store_member_def names_Query_def fold_byte_def byte_def)

text \<open>
  Claim C10, as the code has it. A missing \<open>query\<close> is not a decoding error: the text
  \<open>{}\<close> decodes to the empty query. When the first response proposes \<open>search_internet\<close>
  with these arguments, the search function is invoked with the empty string, the second
  call is made, and \<open>Complete\<close> returns what the second response decides: an error of
  that call, or a result whose \<open>WebSearchQuery\<close> is the empty string.
\<close>

theorem Complete_empty_object_arguments:
  assumes "fst (call E c [] messages tools) = Inr resp" and "Choices resp = msg # rest"
    and "ToolCalls msg = tc # tcs" and "Name (Function tc) = ''search_internet''"
    and "Arguments (Function tc) = ''{}''"
    and "json_Unmarshal_SearchArgs E = Unmarshal_SearchArgs"
    and "searchFn = Some f" and "f '''' = (searchResult, err)"
  shows "Unmarshal_SearchArgs ''{}'' = Some \<lparr>Query = ''''\<rparr> \<and>
     Complete E c messages tools searchFn =
       ((case fst (call E c [CallEvent messages tools, SearchEvent '''']
                     (messages @
                      [\<lparr>Role = ''assistant'', Content = '''', ToolCalls = ToolCalls msg, ToolCallID = ''''\<rparr>,
                       \<lparr>Role = ''tool'', Content = searchResult, ToolCalls = [], ToolCallID = ID tc\<rparr>]) []) of
           Inl e \<Rightarrow> Inl e
         | Inr resp2 \<Rightarrow>
             (case Choices resp2 of
                [] \<Rightarrow> Inl EmptyResponseSecondCall
              | msg2 # _ \<Rightarrow>
                  Inr \<lparr>Reply = Content msg2, WebSearchUsed = True, WebSearchError = err,
                       WebSearchQuery = ''''\<rparr>)),
        [CallEvent messages tools, SearchEvent '''',
         CallEvent (messages @
                      [\<lparr>Role = ''assistant'', Content = '''', ToolCalls = ToolCalls msg, ToolCallID = ''''\<rparr>,
                       \<lparr>Role = ''tool'', Content = searchResult, ToolCalls = [], ToolCallID = ID tc\<rparr>]) []])"
proof -
  define args where "args = \<lparr>Query = ''''\<rparr>"
  have qa: "Query args = ''''" by (simp add: args_def)
  have d: "json_Unmarshal_SearchArgs E (Arguments (Function tc)) = Some args"
    using assms(5,6) by (simp add: Unmarshal_empty_object args_def)
  have q: "f (Query args) = (searchResult, err)"
    using assms(8) qa by simp
  note round = Complete_round[of E c messages tools resp msg rest tc tcs args f searchResult err,
      OF assms(1-4) d q, unfolded qa appended_def]
  from round assms(7) show ?thesis
    by (simp only: Unmarshal_empty_object simp_thms)
qed

theorem Complete_empty_object_arguments_witness:
  "Complete
     ((scripted (Response 200 ''first'') (Response 200 ''second'')
        [(''first'', proposal [proposed_call ''call_1'' ''search_internet'' ''{}'']),
         (''second'', answer ''voici'')] [])
      \<lparr>json_Unmarshal_SearchArgs := Unmarshal_SearchArgs\<rparr>)
     example_client example_history example_tools (Some (\<lambda>q. (''result for '' @ q, None))) =
   (Inr \<lparr>Reply = ''voici'', WebSearchUsed = True, WebSearchError = None, WebSearchQuery = ''''\<rparr>,
    [CallEvent example_history example_tools, SearchEvent '''',
     CallEvent (example_history @
        [\<lparr>Role = ''assistant'', Content = '''',
          ToolCalls = [proposed_call ''call_1'' ''search_internet'' ''{}''], ToolCallID = ''''\<rparr>,
         \<lparr>Role = ''tool'', Content = ''result for '', ToolCalls = [], ToolCallID = ''call_1''\<rparr>]) []])"
proof -
  let ?E = "(scripted (Response 200 ''first'') (Response 200 ''second'')
        [(''first'', proposal [proposed_call ''call_1'' ''search_internet'' ''{}'']),
         (''second'', answer ''voici'')] [])
      \<lparr>json_Unmarshal_SearchArgs := Unmarshal_SearchArgs\<rparr>"
  let ?f = "\<lambda>q::string. (''result for '' @ q, None :: go_error option)"
  let ?tc = "proposed_call ''call_1'' ''search_internet'' ''{}''"
  let ?msg = "\<lparr>Role = ''assistant'', Content = ''je cherche'', ToolCalls = [?tc], ToolCallID = ''''\<rparr>"
  have h1: "fst (call ?E example_client [] example_history example_tools) = Inr (proposal [?tc])"
    by (simp add: scripted_def call_def Let_def)
  have h2: "Choices (proposal [?tc]) = ?msg # []" by (simp add: proposal_def)
  have h3: "ToolCalls ?msg = ?tc # []" by simp
  have h4: "Name (Function ?tc) = ''search_internet''" by (simp add: proposed_call_def)
  have h5: "Arguments (Function ?tc) = ''{}''" by (simp add: proposed_call_def)
  have h6: "json_Unmarshal_SearchArgs ?E = Unmarshal_SearchArgs" by simp
  have h8: "?f '''' = (''result for '', None)" by simp
  from Complete_empty_object_arguments[where f = ?f, OF h1 h2 h3 h4 h5 h6 refl h8]
  show ?thesis
    by (simp add: scripted_def call_def Let_def answer_def proposed_call_def)
qed

text \<open>
  The claim as it is worded fails twice. Decoding fails on well-formed JSON too: the
  text \<open>{"query":1}\<close> parses, and storing a number into the string field is an error, so
  \<open>Complete\<close> returns the error of invalid arguments. And with the arguments \<open>{}\<close>
  \<open>Complete\<close> does return an error when the second call fails.
\<close>

theorem Complete_empty_object_arguments_counterexample:
  "json_parse query_number = Some (JObject [(''query'', JNumber ''1'')]) \<and>
   Unmarshal_SearchArgs query_number = None \<and>
   Complete
     ((scripted (Response 200 ''first'') (Response 200 ''second'')
        [(''first'', proposal [proposed_call ''call_1'' ''search_internet'' query_number]),
         (''second'', answer ''voici'')] [])
      \<lparr>json_Unmarshal_SearchArgs := Unmarshal_SearchArgs\<rparr>)
     example_client example_history example_tools (Some (\<lambda>q. (''result for '' @ q, None))) =
     (Inl InvalidToolArguments, [CallEvent example_history example_tools]) \<and>
   Complete
     ((scripted (Response 200 ''first'') (Response 503 ''busy'')
        [(''first'', proposal [proposed_call ''call_1'' ''search_internet'' ''{}''])] [])
      \<lparr>json_Unmarshal_SearchArgs := Unmarshal_SearchArgs\<rparr>)
     example_client example_history example_tools (Some (\<lambda>q. (''result for '' @ q, None))) =
     (Inl (ApiError \<lparr>StatusCode = 503, Body = ''busy''\<rparr>),
      [CallEvent example_history example_tools, SearchEvent '''',
       CallEvent (example_history @
        [\<lparr>Role = ''assistant'', Content = '''',
          ToolCalls = [proposed_call ''call_1'' ''search_internet'' ''{}''], ToolCallID = ''''\<rparr>,
         \<lparr>Role = ''tool'', Content = ''result for '', ToolCalls = [], ToolCallID = ''call_1''\<rparr>]) []])"
  by (simp add: parse_query_number Unmarshal_query_number Unmarshal_empty_object
        scripted_def call_def Complete_def tool_round_def Let_def proposal_def proposed_call_def)

end
